theory Spec2Isabelle
  imports Complex_Main
begin

section \<open>Data of the leave-management screens\<close>

text \<open>
  The repository's sources are the React screens of an HR leave-management application.
  Day counts are whole numbers (every numeric form field is filled by \<open>parseInt\<close> or by
  an integer default), so a JavaScript \<open>number\<close> holding a day count is an \<open>int\<close>;
  the result of \<open>parseInt\<close>, which may be \<open>NaN\<close>, is an \<open>int option\<close> with
  \<open>None\<close> for \<open>NaN\<close>. A calendar date is its day number counted from 1970-01-01.
\<close>

type_synonym date = int

datatype employee_status = active | inactive

datatype employee_group = group_a | group_b

text \<open>An employee as \<open>GET /api/employees\<close> returns it; the screens read \<open>id\<close>,
  \<open>employeeId\<close>, \<open>fullName\<close> and \<open>status\<close>.\<close>

record Employee =
  e_id :: string
  e_employeeId :: string
  e_fullName :: string
  e_department :: string
  e_group :: employee_group
  e_status :: employee_status

datatype attendance_status = present | absent | late | early_departure

record AttendanceRecord =
  a_employee_id :: string
  a_date :: date
  a_status :: attendance_status

text \<open>\<open>interface LeaveBalance\<close>: one row of the leave-balance report.\<close>

record LeaveBalance =
  employee_id :: string
  full_name :: string
  emp_id :: string
  year :: int
  annual_entitlement :: int
  used_days :: int
  remaining_days :: int
  department :: string
  employee_group :: string
  utilization_percentage :: rat

text \<open>JavaScript's \<open>x || 0\<close> on a number: \<open>0\<close> (and \<open>NaN\<close>) give \<open>0\<close>.\<close>

definition or_zero :: "int \<Rightarrow> int" where
  "or_zero x = (if x = 0 then 0 else x)"

definition nan_or_zero :: "int option \<Rightarrow> int" where
  "nan_or_zero p = (case p of None \<Rightarrow> 0 | Some x \<Rightarrow> or_zero x)"

section \<open>Statistics of the automatic-deduction screen\<close>

text \<open>
  \<^verbatim>\<open>
  const activeEmployees = employees?.filter((emp: any) => emp.status === 'active') || [];
  const totalEmployees = activeEmployees.length;
  const attendedEmployees = attendanceData?.length || 0;
  const absentEmployees = totalEmployees - attendedEmployees;
  const eligibleForDeduction =
    leaveBalances?.filter((balance: any) => balance.remaining_days > 0)?.length || 0;
  ... {Math.min(absentEmployees, eligibleForDeduction)}
  \<close>
\<close>

definition activeEmployees :: "Employee list \<Rightarrow> Employee list" where
  "activeEmployees employees = filter (\<lambda>emp. e_status emp = active) employees"

definition totalEmployees :: "Employee list \<Rightarrow> int" where
  "totalEmployees employees = int (length (activeEmployees employees))"

definition attendedEmployees :: "AttendanceRecord list \<Rightarrow> int" where
  "attendedEmployees attendanceData = or_zero (int (length attendanceData))"

definition absentEmployees :: "Employee list \<Rightarrow> AttendanceRecord list \<Rightarrow> int" where
  "absentEmployees employees attendanceData =
     totalEmployees employees - attendedEmployees attendanceData"

definition eligibleForDeduction :: "LeaveBalance list \<Rightarrow> int" where
  "eligibleForDeduction leaveBalances =
     or_zero (int (length (filter (\<lambda>balance. remaining_days balance > 0) leaveBalances)))"

definition autoDeducted ::
  "Employee list \<Rightarrow> AttendanceRecord list \<Rightarrow> LeaveBalance list \<Rightarrow> int" where
  "autoDeducted employees attendanceData leaveBalances =
     min (absentEmployees employees attendanceData) (eligibleForDeduction leaveBalances)"

section \<open>The unified leave-management actions and the edit dialog\<close>

text \<open>The requests the screens send to the balance endpoints.\<close>

datatype api_request =
    PostLeaveBalance string int int int
  | PutLeaveBalance string int int

datatype action_type = deduct | add

record LeaveActionForm =
  act_employeeId :: string
  days :: int
  reason :: string

text \<open>
  \<^verbatim>\<open>
  initializeBalanceMutation: apiRequest('POST', '/api/leave-balances',
      { employeeId, year: selectedYear, annualEntitlement: 45, usedDays: 0 })
  updateBalanceMutation: apiRequest('PUT', `/api/leave-balances/${employeeId}/${selectedYear}`,
      { usedDays: Math.max(0, newUsedDays) })
  \<close>
\<close>

definition initializeBalanceMutation :: "int \<Rightarrow> string \<Rightarrow> api_request" where
  "initializeBalanceMutation selectedYear employeeId =
     PostLeaveBalance employeeId selectedYear 45 0"

definition updateBalanceMutation :: "int \<Rightarrow> string \<Rightarrow> int \<Rightarrow> api_request" where
  "updateBalanceMutation selectedYear employeeId newUsedDays =
     PutLeaveBalance employeeId selectedYear (max 0 newUsedDays)"

text \<open>
  \<^verbatim>\<open>
  const handleQuickAction = (employeeId, action, days) => {
    const balance = leaveBalances.find(b => b.employee_id === employeeId);
    if (!balance) { initializeBalanceMutation.mutate(employeeId); return; }
    const currentUsedDays = balance.used_days || 0;
    const newUsedDays = action === 'deduct'
      ? currentUsedDays + days
      : Math.max(0, currentUsedDays - days);
    updateBalanceMutation.mutate({ employeeId, newUsedDays });
  };
  \<close>
  \<open>handleSubmit\<close> is the same computation on the validated form data and the
  selected \<open>actionType\<close>.
\<close>

definition handleQuickAction ::
  "LeaveBalance list \<Rightarrow> int \<Rightarrow> string \<Rightarrow> action_type \<Rightarrow> int \<Rightarrow> api_request" where
  "handleQuickAction leaveBalances selectedYear employeeId action n =
     (case find (\<lambda>b. employee_id b = employeeId) leaveBalances of
        None \<Rightarrow> initializeBalanceMutation selectedYear employeeId
      | Some balance \<Rightarrow>
          (let currentUsedDays = or_zero (used_days balance);
               newUsedDays = (if action = deduct then currentUsedDays + n
                              else max 0 (currentUsedDays - n))
           in updateBalanceMutation selectedYear employeeId newUsedDays))"

definition handleSubmit ::
  "LeaveBalance list \<Rightarrow> int \<Rightarrow> action_type \<Rightarrow> LeaveActionForm \<Rightarrow> api_request" where
  "handleSubmit leaveBalances selectedYear actionType data =
     (case find (\<lambda>b. employee_id b = act_employeeId data) leaveBalances of
        None \<Rightarrow> initializeBalanceMutation selectedYear (act_employeeId data)
      | Some balance \<Rightarrow>
          (let currentUsedDays = or_zero (used_days balance);
               newUsedDays = (if actionType = deduct then currentUsedDays + days data
                              else max 0 (currentUsedDays - days data))
           in updateBalanceMutation selectedYear (act_employeeId data) newUsedDays))"

text \<open>
  The edit dialog of the balance-management screen:
  \<^verbatim>\<open>
  onChange={(e) => {
    const newUsedDays = parseInt(e.target.value) || 0;
    if (newUsedDays >= 0 && newUsedDays <= editingBalance.annual_entitlement) {
      handleUpdateUsedDays(editingBalance, newUsedDays);
    }
  }}
  \<close>
  \<open>handleUpdateUsedDays\<close> sends the value as it is; \<open>None\<close> is no request.
\<close>

definition handleUpdateUsedDays :: "LeaveBalance \<Rightarrow> int \<Rightarrow> api_request" where
  "handleUpdateUsedDays balance newUsedDays =
     PutLeaveBalance (employee_id balance) (year balance) newUsedDays"

definition editDialogOnChange :: "LeaveBalance \<Rightarrow> int option \<Rightarrow> api_request option" where
  "editDialogOnChange editingBalance parsed =
     (let newUsedDays = nan_or_zero parsed
      in if newUsedDays \<ge> 0 \<and> newUsedDays \<le> annual_entitlement editingBalance
         then Some (handleUpdateUsedDays editingBalance newUsedDays)
         else None)"

text \<open>The \<open>usedDays\<close> a request carries.\<close>

fun submitted_usedDays :: "api_request \<Rightarrow> int" where
  "submitted_usedDays (PostLeaveBalance employeeId y entitlement used) = used"
| "submitted_usedDays (PutLeaveBalance employeeId y used) = used"

section \<open>The create-balance form and its schema\<close>

text \<open>
  \<^verbatim>\<open>
  const leaveBalanceSchema = z.object({
    employeeId: z.string().min(1, "Employee ID is required"),
    year: z.number().min(2020).max(2030),
    annualEntitlement: z.number().min(1).max(60).default(45),
    usedDays: z.number().min(0).max(60).default(0),
  });
  \<close>
  The form's numeric fields are set by \<open>field.onChange(parseInt(e.target.value))\<close>, so a
  field holds an integer or \<open>NaN\<close> (\<open>None\<close>). \<open>z.number()\<close> refuses \<open>NaN\<close> with an
  \<open>invalid_type\<close> issue; \<open>min\<close> and \<open>max\<close> are both checked and each adds its own issue.
  \<open>.default\<close> replaces only an \<open>undefined\<close> field, which the form (with its
  \<open>defaultValues\<close>) never holds. An issue is the field's path and the issue code.
\<close>

datatype issue_code = invalid_type | too_small | too_big

type_synonym zod_issue = "string \<times> issue_code"

definition z_string_min :: "string \<Rightarrow> nat \<Rightarrow> string \<Rightarrow> zod_issue list" where
  "z_string_min path n s = (if length s < n then [(path, too_small)] else [])"

definition z_number_min_max :: "string \<Rightarrow> int \<Rightarrow> int \<Rightarrow> int option \<Rightarrow> zod_issue list" where
  "z_number_min_max path lo hi v =
     (case v of
        None \<Rightarrow> [(path, invalid_type)]
      | Some n \<Rightarrow> (if n < lo then [(path, too_small)] else []) @
                  (if n > hi then [(path, too_big)] else []))"

record LeaveBalanceForm =
  employeeId :: string
  form_year :: "int option"
  annualEntitlement :: "int option"
  usedDays :: "int option"

definition leaveBalanceSchema :: "LeaveBalanceForm \<Rightarrow> zod_issue list + LeaveBalanceForm" where
  "leaveBalanceSchema f =
     (let issues =
            z_string_min ''employeeId'' 1 (employeeId f) @
            z_number_min_max ''year'' 2020 2030 (form_year f) @
            z_number_min_max ''annualEntitlement'' 1 60 (annualEntitlement f) @
            z_number_min_max ''usedDays'' 0 60 (usedDays f)
      in if issues = [] then Inr f else Inl issues)"

text \<open>
  \<open>form.handleSubmit(handleSubmit)\<close> runs the resolver and calls \<open>handleSubmit\<close>, which
  posts the data through \<open>createBalanceMutation\<close>, only when the schema accepts.
\<close>

definition createBalanceMutation :: "LeaveBalanceForm \<Rightarrow> api_request option" where
  "createBalanceMutation f =
     (case leaveBalanceSchema f of
        Inl issues \<Rightarrow> None
      | Inr d \<Rightarrow>
          (case (form_year d, annualEntitlement d, usedDays d) of
             (Some y, Some entitlement, Some used) \<Rightarrow>
               Some (PostLeaveBalance (employeeId d) y entitlement used)
           | _ \<Rightarrow> None))"

text \<open>
  \<^verbatim>\<open>
  const leaveActionSchema = z.object({
    employeeId: z.string().min(1, "Employee is required"),
    days: z.number().min(1).max(45, "Days must be between 1 and 45"),
    reason: z.string().min(1, "Reason is required"),
  });
  \<close>
  on the data \<open>handleSubmit\<close> receives, whose \<open>days\<close> is a number.
\<close>

definition leaveActionSchema :: "LeaveActionForm \<Rightarrow> zod_issue list + LeaveActionForm" where
  "leaveActionSchema f =
     (let issues =
            z_string_min ''employeeId'' 1 (act_employeeId f) @
            z_number_min_max ''days'' 1 45 (Some (days f)) @
            z_string_min ''reason'' 1 (reason f)
      in if issues = [] then Inr f else Inl issues)"

section \<open>Summary statistics of the balance report\<close>

text \<open>
  A JavaScript number is an IEEE 754 double: \<open>Finite\<close> holds the exact rational value of a
  finite double (both zeros are 0), and the three other values are \<open>NaN\<close>, \<open>Infinity\<close>
  and \<open>-Infinity\<close>. An arithmetic operation gives the double nearest to the exact
  result, a tie going to the even mantissa.
\<close>

datatype js_number = Finite rat | NaN | PosInfinity | NegInfinity

text \<open>The number of binary digits of a positive integer.\<close>

function bit_length :: "int \<Rightarrow> int" where
  "bit_length n = (if n \<le> 0 then 0 else 1 + bit_length (n div 2))"
  by pat_completeness auto
termination
  by (relation "measure nat") auto

text \<open>The exponent \<open>e\<close> of a positive rational \<open>a\<close>: \<open>2^e \<le> a < 2^(e + 1)\<close>.\<close>

definition binary_exponent :: "rat \<Rightarrow> int" where
  "binary_exponent a =
     (case quotient_of a of
        (p, d) \<Rightarrow>
          (let e0 = bit_length p - bit_length d
           in if 2 powi e0 \<le> a then e0 else e0 - 1))"

definition round_half_even :: "rat \<Rightarrow> int" where
  "round_half_even m =
     (let f = \<lfloor>m\<rfloor>; r = m - of_int f
      in if r < 1 / 2 then f else if r > 1 / 2 then f + 1
         else if even f then f else f + 1)"

text \<open>
  Rounding to a double: the magnitude is rounded to 53 binary digits (to a multiple of
  \<open>2^-1074\<close> below \<open>2^-1022\<close>), and a result of \<open>2^1024\<close> or more is an infinity.
\<close>

definition nearest_double :: "rat \<Rightarrow> js_number" where
  "nearest_double q =
     (if q = 0 then Finite 0
      else
        (let a = \<bar>q\<bar>;
             e = binary_exponent a;
             k = max (e - 52) (- 1074);
             m = round_half_even (a / 2 powi k)
         in if e > 1023 \<or> (e = 1023 \<and> m = 2 ^ 53)
            then (if q < 0 then NegInfinity else PosInfinity)
            else Finite ((if q < 0 then - 1 else 1) * of_int m * 2 powi k)))"

text \<open>
  \<open>a / b\<close> on two integers (a double holds an integer up to \<open>2^53\<close> in magnitude exactly),
  and \<open>x * k\<close> for a positive integer constant \<open>k\<close>; each rounds its exact result to a
  double.
\<close>

definition js_div :: "int \<Rightarrow> int \<Rightarrow> js_number" where
  "js_div a b =
     (if b = 0 then (if a = 0 then NaN else if a > 0 then PosInfinity else NegInfinity)
      else nearest_double (of_int a / of_int b))"

definition js_times :: "js_number \<Rightarrow> int \<Rightarrow> js_number" where
  "js_times x k = (case x of Finite q \<Rightarrow> nearest_double (q * of_int k) | other \<Rightarrow> other)"

definition digit_char :: "nat \<Rightarrow> char" where
  "digit_char d = ''0123456789'' ! d"

fun decimal :: "nat \<Rightarrow> string" where
  "decimal n = (if n < 10 then [digit_char n] else decimal (n div 10) @ [digit_char (n mod 10)])"

text \<open>
  \<open>Number.prototype.toFixed(1)\<close>: the sign, then the integer \<open>n\<close> for which \<open>n / 10\<close> is
  nearest to the absolute value (the larger \<open>n\<close> on a tie), printed with one digit after
  the point, all on the exact value of the double. Values from \<open>10^21\<close> on, which
  \<open>toFixed\<close> prints in exponent form, are not modelled.
\<close>

definition tenths :: "rat \<Rightarrow> nat" where
  "tenths q = nat \<lfloor>\<bar>q\<bar> * 10 + 1 / 2\<rfloor>"

definition format_tenths :: "nat \<Rightarrow> string" where
  "format_tenths n = decimal (n div 10) @ ''.'' @ decimal (n mod 10)"

definition toFixed1 :: "js_number \<Rightarrow> string" where
  "toFixed1 x =
     (case x of
        NaN \<Rightarrow> ''NaN''
      | PosInfinity \<Rightarrow> ''Infinity''
      | NegInfinity \<Rightarrow> ''-Infinity''
      | Finite q \<Rightarrow> (if q < 0 then ''-'' else []) @ format_tenths (tenths q))"

text \<open>What a screen renders: the number \<open>0\<close> or the string \<open>toFixed\<close> made.\<close>

datatype rendered = RNumber int | RString string

text \<open>
  \<^verbatim>\<open>
  const reportData = Array.isArray(leaveReport) ? leaveReport : [];
  const totalEmployees = reportData.length;
  const totalEntitlement = reportData.reduce((sum, emp) => sum + (emp.annual_entitlement || 0), 0);
  const totalUsed = reportData.reduce((sum, emp) => sum + (emp.used_days || 0), 0);
  const totalRemaining = reportData.reduce((sum, emp) => sum + (emp.remaining_days || 0), 0);
  const averageUtilization =
    totalEmployees > 0 ? (totalUsed / totalEntitlement * 100).toFixed(1) : 0;
  \<close>
\<close>

definition report_totalEmployees :: "LeaveBalance list \<Rightarrow> int" where
  "report_totalEmployees reportData = int (length reportData)"

definition totalEntitlement :: "LeaveBalance list \<Rightarrow> int" where
  "totalEntitlement reportData =
     foldl (\<lambda>sum emp. sum + or_zero (annual_entitlement emp)) 0 reportData"

definition totalUsed :: "LeaveBalance list \<Rightarrow> int" where
  "totalUsed reportData = foldl (\<lambda>sum emp. sum + or_zero (used_days emp)) 0 reportData"

definition totalRemaining :: "LeaveBalance list \<Rightarrow> int" where
  "totalRemaining reportData =
     foldl (\<lambda>sum emp. sum + or_zero (remaining_days emp)) 0 reportData"

definition averageUtilization :: "LeaveBalance list \<Rightarrow> rendered" where
  "averageUtilization reportData =
     (if report_totalEmployees reportData > 0
      then RString (toFixed1
             (js_times (js_div (totalUsed reportData) (totalEntitlement reportData)) 100))
      else RNumber 0)"

text \<open>
  \<^verbatim>\<open>
  const getUsageCategoryColor = (category: string) => {
    switch (category) {
      case 'No Leave Taken': return 'bg-gray-100 text-gray-800';
      case 'Low Usage':      return 'bg-green-100 text-green-800';
      case 'Moderate Usage': return 'bg-yellow-100 text-yellow-800';
      case 'High Usage':     return 'bg-red-100 text-red-800';
      default:               return 'bg-gray-100 text-gray-800';
    }
  };
  \<close>
\<close>

definition getUsageCategoryColor :: "string \<Rightarrow> string" where
  "getUsageCategoryColor category =
     (if category = ''No Leave Taken'' then ''bg-gray-100 text-gray-800''
      else if category = ''Low Usage'' then ''bg-green-100 text-green-800''
      else if category = ''Moderate Usage'' then ''bg-yellow-100 text-yellow-800''
      else if category = ''High Usage'' then ''bg-red-100 text-red-800''
      else ''bg-gray-100 text-gray-800'')"

section \<open>The balance store and the deduction processor\<close>

text \<open>
  The screens above call a server (\<open>POST /api/leave-balances\<close>,
  \<open>PUT /api/leave-balances/:employeeId/:year\<close>, \<open>POST /api/leave-deduction/process\<close>,
  the report and the calculator) whose code is not among the repository's sources. This
  section models that server from the specification, sections 3 and 4.
\<close>

text \<open>Leave requests and holidays, as the tables of the schema snapshot hold them.\<close>

datatype leave_status = pending | approved | rejected

record LeaveRequest =
  lr_employee_id :: string
  lr_start_date :: date
  lr_end_date :: date
  lr_days :: int
  lr_status :: leave_status

datatype holiday_type = annual | special | weekend

record Holiday =
  h_date :: date
  h_type :: holiday_type
  h_applicable_groups :: "employee_group list"

text \<open>
  Modelled from the spec: the stored LeaveBalance record (the table is not in the schema
  snapshot). It holds the annual entitlement, the used days and the two derived values.
\<close>

record StoredBalance =
  sb_annual_entitlement :: int
  sb_used_days :: int
  sb_remaining_days :: int
  sb_utilization_percentage :: rat

text \<open>
  Modelled from the spec: the persisted state, the tables of section 3. There is exactly
  one LeaveBalance per (employee, year), so the balances are a map from that key.
\<close>

record hr_state =
  employees :: "Employee list"
  attendance :: "AttendanceRecord list"
  leave_requests :: "LeaveRequest list"
  holidays :: "Holiday list"
  leave_balances :: "string \<times> int \<rightharpoonup> StoredBalance"

text \<open>
  Modelled from the spec: rounding to one decimal, half away from zero, which the missing
  server applies to the utilization percentage.
\<close>

definition round1 :: "rat \<Rightarrow> rat" where
  "round1 x = (if x < 0 then - (of_int \<lfloor>- x * 10 + 1 / 2\<rfloor> / 10)
               else of_int \<lfloor>x * 10 + 1 / 2\<rfloor> / 10)"

text \<open>
  Modelled from the spec: the derived remaining days (\<open>entitlement - used\<close>, floored at 0)
  of the missing balance computation.
\<close>

definition compute_remaining :: "int \<Rightarrow> int \<Rightarrow> int" where
  "compute_remaining entitlement used = max 0 (entitlement - used)"

text \<open>
  Modelled from the spec: the derived utilization percentage (\<open>used / entitlement * 100\<close>
  rounded to one decimal when the entitlement is positive, else 0) of the missing balance
  computation.
\<close>

definition compute_utilization :: "int \<Rightarrow> int \<Rightarrow> rat" where
  "compute_utilization entitlement used =
     (if entitlement > 0 then round1 (of_int used / of_int entitlement * 100) else 0)"

text \<open>
  Modelled from the spec: writing a balance recomputes remaining days and utilization
  (the missing server's create, update and deduction all store a record this way).
\<close>

definition make_balance :: "int \<Rightarrow> int \<Rightarrow> StoredBalance" where
  "make_balance entitlement used =
     \<lparr>sb_annual_entitlement = entitlement, sb_used_days = used,
      sb_remaining_days = compute_remaining entitlement used,
      sb_utilization_percentage = compute_utilization entitlement used\<rparr>"

text \<open>
  Modelled from the spec: the usage category of the missing Leave Balance Calculator, the
  four thresholds of section 4.1 applied to the utilization percentage.
\<close>

definition usage_category :: "rat \<Rightarrow> string" where
  "usage_category u =
     (if u = 0 then ''No Leave Taken''
      else if u \<le> 25 then ''Low Usage''
      else if u \<le> 75 then ''Moderate Usage''
      else ''High Usage'')"

text \<open>
  Modelled from the spec: the category the missing calculator reports for a balance, the
  category of its utilization percentage.
\<close>

definition balance_usage_category :: "int \<Rightarrow> int \<Rightarrow> string" where
  "balance_usage_category entitlement used =
     usage_category (compute_utilization entitlement used)"

text \<open>Modelled from the spec: the error of the missing handlers, section 7's not-found.\<close>

datatype api_error = NotFound

text \<open>
  Modelled from the spec: the missing handler of \<open>POST /api/leave-balances\<close>, which stores
  the balance of (employee, year) with the entitlement and used days it is given.
\<close>

definition create_balance :: "hr_state \<Rightarrow> string \<Rightarrow> int \<Rightarrow> int \<Rightarrow> int \<Rightarrow> hr_state" where
  "create_balance st eid y entitlement used =
     st\<lparr>leave_balances := (leave_balances st)((eid, y) \<mapsto> make_balance entitlement used)\<rparr>"

text \<open>
  Modelled from the spec: the missing handler of
  \<open>PUT /api/leave-balances/:employeeId/:year\<close>, which replaces the used days of an existing
  balance and signals Not Found for an unknown one.
\<close>

definition update_balance :: "hr_state \<Rightarrow> string \<Rightarrow> int \<Rightarrow> int \<Rightarrow> api_error + hr_state" where
  "update_balance st eid y used =
     (case leave_balances st (eid, y) of
        None \<Rightarrow> Inl NotFound
      | Some b \<Rightarrow>
          Inr (st\<lparr>leave_balances :=
                 (leave_balances st)((eid, y) \<mapsto> make_balance (sb_annual_entitlement b) used)\<rparr>))"

text \<open>
  Modelled from the spec: the missing server's dispatch of a balance request; a failed request
  leaves the state as it was.
\<close>

fun handle_request :: "hr_state \<Rightarrow> api_request \<Rightarrow> hr_state" where
  "handle_request st (PostLeaveBalance eid y entitlement used) =
     create_balance st eid y entitlement used"
| "handle_request st (PutLeaveBalance eid y used) =
     (case update_balance st eid y used of Inl err \<Rightarrow> st | Inr st' \<Rightarrow> st')"

text \<open>
  Modelled from the spec: the weekend check of the missing deduction processor (section
  4.2, step 2). A date is a day number from 1970-01-01, a Thursday; the weekend is
  Saturday and Sunday.
\<close>

definition is_weekend :: "date \<Rightarrow> bool" where
  "is_weekend d = (let wd = (d + 4) mod 7 in wd = 0 \<or> wd = 6)"

text \<open>
  Modelled from the spec: the holiday check of the missing deduction processor (step 2),
  a holiday record on the date.
\<close>

definition is_holiday :: "hr_state \<Rightarrow> date \<Rightarrow> bool" where
  "is_holiday st d = list_ex (\<lambda>h. h_date h = d) (holidays st)"

text \<open>
  Modelled from the spec: the attendance check of the missing deduction processor (step 3),
  an attendance record of the employee for the date.
\<close>

definition has_attendance :: "hr_state \<Rightarrow> string \<Rightarrow> date \<Rightarrow> bool" where
  "has_attendance st eid d =
     list_ex (\<lambda>a. a_employee_id a = eid \<and> a_date a = d) (attendance st)"

text \<open>
  Modelled from the spec: the leave check of the missing deduction processor (step 4), an
  approved leave request of the employee whose range covers the date.
\<close>

definition has_approved_leave :: "hr_state \<Rightarrow> string \<Rightarrow> date \<Rightarrow> bool" where
  "has_approved_leave st eid d =
     list_ex (\<lambda>r. lr_employee_id r = eid \<and> lr_status r = approved \<and>
                   lr_start_date r \<le> d \<and> d \<le> lr_end_date r) (leave_requests st)"

text \<open>
  Modelled from the spec: the balance the missing processor reads for (employee, year); a
  row that does not exist yet counts with the default entitlement 45 and no used days
  (step 6 creates it so).
\<close>

definition current_balance :: "hr_state \<Rightarrow> string \<Rightarrow> int \<Rightarrow> StoredBalance" where
  "current_balance st eid y =
     (case leave_balances st (eid, y) of None \<Rightarrow> make_balance 45 0 | Some b \<Rightarrow> b)"

text \<open>
  Modelled from the spec: steps 2 to 6 of the missing deduction processor for one selected
  employee; the result says whether a day was deducted.
\<close>

definition deduct_employee :: "date \<Rightarrow> int \<Rightarrow> hr_state \<Rightarrow> Employee \<Rightarrow> hr_state \<times> bool" where
  "deduct_employee d y st e =
     (if is_holiday st d \<or> is_weekend d then (st, False)
      else if has_attendance st (e_id e) d then (st, False)
      else if has_approved_leave st (e_id e) d then (st, False)
      else
        (let b = current_balance st (e_id e) y
         in if sb_remaining_days b > 0
            then (st\<lparr>leave_balances :=
                       (leave_balances st)((e_id e, y) \<mapsto>
                          make_balance (sb_annual_entitlement b) (sb_used_days b + 1))\<rparr>, True)
            else (st, False)))"

text \<open>
  Modelled from the spec: the missing processor's loop over the selected employees, counting
  the deductions.
\<close>

fun deduct_all :: "date \<Rightarrow> int \<Rightarrow> Employee list \<Rightarrow> hr_state \<Rightarrow> nat \<Rightarrow> hr_state \<times> nat" where
  "deduct_all d y [] st n = (st, n)"
| "deduct_all d y (e # es) st n =
     (case deduct_employee d y st e of
        (st', deducted) \<Rightarrow> deduct_all d y es st' (if deducted then n + 1 else n))"

text \<open>The response of a deduction run, as the screens read it.\<close>

record DeductionResult =
  processedEmployees :: nat
  deductedCount :: nat

text \<open>
  Modelled from the spec: step 1 of the missing processor, the active employees, one of
  them when an employee is given.
\<close>

definition selected_employees :: "hr_state \<Rightarrow> string option \<Rightarrow> Employee list" where
  "selected_employees st employeeFilter =
     filter (\<lambda>e. e_status e = active \<and>
                  (case employeeFilter of None \<Rightarrow> True | Some i \<Rightarrow> e_id e = i))
       (employees st)"

text \<open>
  Modelled from the spec: the missing handler of \<open>POST /api/leave-deduction/process\<close> for a
  target date, an optional employee and the year whose balances are charged (the spec's
  current year).
\<close>

definition process_deduction ::
  "hr_state \<Rightarrow> date \<Rightarrow> string option \<Rightarrow> int \<Rightarrow> hr_state \<times> DeductionResult" where
  "process_deduction st d employeeFilter y =
     (let selected = selected_employees st employeeFilter
      in case deduct_all d y selected st 0 of
           (st', n) \<Rightarrow> (st', \<lparr>processedEmployees = length selected, deductedCount = n\<rparr>))"

text \<open>
  Modelled from the spec: the glossary's "eligible for deduction", as a predicate on an
  employee, to state what the processor does.
\<close>

definition eligible_for_deduction :: "hr_state \<Rightarrow> date \<Rightarrow> int \<Rightarrow> Employee \<Rightarrow> bool" where
  "eligible_for_deduction st d y e =
     (e_status e = active \<and>
      \<not> has_attendance st (e_id e) d \<and>
      \<not> has_approved_leave st (e_id e) d \<and>
      \<not> is_holiday st d \<and> \<not> is_weekend d \<and>
      sb_remaining_days (current_balance st (e_id e) y) > 0)"

text \<open>
  Modelled from the spec: one row of the missing report endpoint, a stored balance joined
  with its employee.
\<close>

definition report_row :: "Employee \<Rightarrow> int \<Rightarrow> StoredBalance \<Rightarrow> LeaveBalance" where
  "report_row e y b =
     \<lparr>employee_id = e_id e, full_name = e_fullName e, emp_id = e_employeeId e, year = y,
      annual_entitlement = sb_annual_entitlement b, used_days = sb_used_days b,
      remaining_days = sb_remaining_days b, department = e_department e,
      employee_group = (case e_group e of group_a \<Rightarrow> ''group_a'' | group_b \<Rightarrow> ''group_b''),
      utilization_percentage = sb_utilization_percentage b\<rparr>"

text \<open>
  Modelled from the spec: the missing handler of \<open>GET /api/leave-balances/report?year=Y\<close>,
  the balance rows of the year, one per employee that has one.
\<close>

definition leave_balance_report :: "hr_state \<Rightarrow> int \<Rightarrow> LeaveBalance list" where
  "leave_balance_report st y =
     List.map_filter (\<lambda>e. map_option (report_row e y) (leave_balances st (e_id e, y)))
       (employees st)"

section \<open>What a user can do on the screens\<close>

text \<open>
  Every way the screens change a balance: the create form, the unified add/deduct dialog
  and its quick buttons (each with the balance rows the screen holds at that moment), the
  edit dialog (with the row being edited and the parsed input), and the deduction run.
\<close>

datatype user_action =
    SubmitCreateForm LeaveBalanceForm
  | SubmitLeaveAction "LeaveBalance list" int action_type LeaveActionForm
  | QuickAction "LeaveBalance list" int string action_type int
  | EditUsedDays LeaveBalance "int option"
  | ProcessDeduction date "string option" int

fun perform :: "hr_state \<Rightarrow> user_action \<Rightarrow> hr_state" where
  "perform st (SubmitCreateForm f) =
     (case createBalanceMutation f of None \<Rightarrow> st | Some r \<Rightarrow> handle_request st r)"
| "perform st (SubmitLeaveAction leaveBalances selectedYear actionType f) =
     (case leaveActionSchema f of
        Inl issues \<Rightarrow> st
      | Inr data \<Rightarrow> handle_request st (handleSubmit leaveBalances selectedYear actionType data))"
| "perform st (QuickAction leaveBalances selectedYear eid action n) =
     handle_request st (handleQuickAction leaveBalances selectedYear eid action n)"
| "perform st (EditUsedDays editingBalance parsed) =
     (case editDialogOnChange editingBalance parsed of
        None \<Rightarrow> st
      | Some r \<Rightarrow> handle_request st r)"
| "perform st (ProcessDeduction d employeeFilter y) =
     fst (process_deduction st d employeeFilter y)"

text \<open>The data-model invariants of a stored balance, in the specification's words.\<close>

definition balance_ok :: "StoredBalance \<Rightarrow> bool" where
  "balance_ok b =
     (sb_used_days b \<ge> 0 \<and>
      sb_remaining_days b = max 0 (sb_annual_entitlement b - sb_used_days b) \<and>
      sb_utilization_percentage b =
        (if sb_annual_entitlement b > 0
         then round1 (of_int (sb_used_days b) / of_int (sb_annual_entitlement b) * 100)
         else 0))"

definition balances_ok :: "hr_state \<Rightarrow> bool" where
  "balances_ok st = (\<forall>k b. leave_balances st k = Some b \<longrightarrow> balance_ok b)"

section \<open>Predicates of the specification and example data\<close>

text \<open>"In [lo, hi]" for a form field: the field holds a number, within the bounds.\<close>

definition in_range :: "int \<Rightarrow> int \<Rightarrow> int option \<Rightarrow> bool" where
  "in_range lo hi v = (case v of None \<Rightarrow> False | Some n \<Rightarrow> lo \<le> n \<and> n \<le> hi)"

text \<open>The bounds the specification gives for the create-balance form.\<close>

definition in_bounds :: "LeaveBalanceForm \<Rightarrow> bool" where
  "in_bounds f =
     (employeeId f \<noteq> [] \<and> in_range 2020 2030 (form_year f) \<and>
      in_range 1 60 (annualEntitlement f) \<and> in_range 0 60 (usedDays f))"

text \<open>A balance after one more used day, with the derived values recomputed.\<close>

definition charged :: "StoredBalance \<Rightarrow> StoredBalance" where
  "charged b = make_balance (sb_annual_entitlement b) (sb_used_days b + 1)"

definition default_form :: LeaveBalanceForm where
  "default_form =
     \<lparr>employeeId = ''EMP001'', form_year = Some 2025, annualEntitlement = Some 45,
      usedDays = Some 0\<rparr>"

definition overused_form :: LeaveBalanceForm where
  "overused_form =
     \<lparr>employeeId = ''EMP001'', form_year = Some 2025, annualEntitlement = Some 45,
      usedDays = Some 61\<rparr>"

definition report_entry :: "string \<Rightarrow> int \<Rightarrow> int \<Rightarrow> LeaveBalance" where
  "report_entry i entitlement used =
     \<lparr>employee_id = i, full_name = ''Employee'', emp_id = ''EMP'', year = 2025,
      annual_entitlement = entitlement, used_days = used,
      remaining_days = max 0 (entitlement - used), department = ''IT'',
      employee_group = ''group_a'', utilization_percentage = 0\<rparr>"

definition zero_entitlement_entry :: LeaveBalance where
  "zero_entitlement_entry = report_entry ''1'' 0 0"

text \<open>Two rows with entitlement 40 each and 10 and 13 used days: 23 of 80, exactly 28.75
  percent.\<close>

definition tie_report :: "LeaveBalance list" where
  "tie_report = [report_entry ''1'' 40 10, report_entry ''2'' 40 13]"

definition full_balance :: LeaveBalance where
  "full_balance =
     \<lparr>employee_id = ''1'', full_name = ''A'', emp_id = ''EMP001'', year = 2025,
      annual_entitlement = 45, used_days = 45, remaining_days = 0, department = ''IT'',
      employee_group = ''group_a'', utilization_percentage = 100\<rparr>"

definition deduct_one_day :: LeaveActionForm where
  "deduct_one_day = \<lparr>act_employeeId = ''1'', days = 1, reason = ''absent''\<rparr>"

definition inactive_employee :: Employee where
  "inactive_employee =
     \<lparr>e_id = ''9'', e_employeeId = ''EMP009'', e_fullName = ''Bob'', e_department = ''IT'',
      e_group = group_a, e_status = inactive\<rparr>"

definition attendance_of_inactive :: AttendanceRecord where
  "attendance_of_inactive = \<lparr>a_employee_id = ''9'', a_date = 20094, a_status = present\<rparr>"

text \<open>Monday 2025-01-06, and three active employees: Alice is absent with 45 days left,
  Carol is present, Dave is absent with no days left.\<close>

definition monday :: date where
  "monday = 20094"

definition alice :: Employee where
  "alice = \<lparr>e_id = ''1'', e_employeeId = ''EMP001'', e_fullName = ''Alice'',
            e_department = ''IT'', e_group = group_a, e_status = active\<rparr>"

definition carol :: Employee where
  "carol = \<lparr>e_id = ''2'', e_employeeId = ''EMP002'', e_fullName = ''Carol'',
            e_department = ''IT'', e_group = group_b, e_status = active\<rparr>"

definition dave :: Employee where
  "dave = \<lparr>e_id = ''3'', e_employeeId = ''EMP003'', e_fullName = ''Dave'',
           e_department = ''HR'', e_group = group_a, e_status = active\<rparr>"

definition example_state :: hr_state where
  "example_state =
     \<lparr>employees = [alice, carol, dave],
      attendance = [\<lparr>a_employee_id = ''2'', a_date = monday, a_status = present\<rparr>],
      leave_requests = [],
      holidays = [],
      leave_balances = [(''1'', 2025) \<mapsto> make_balance 45 0,
                        (''2'', 2025) \<mapsto> make_balance 45 10,
                        (''3'', 2025) \<mapsto> make_balance 45 45]\<rparr>"

text \<open>The same state with that Monday declared a holiday.\<close>

definition holiday_state :: hr_state where
  "holiday_state =
     example_state\<lparr>holidays :=
       [\<lparr>h_date = monday, h_type = special, h_applicable_groups = [group_a, group_b]\<rparr>]\<rparr>"

section \<open>The statistics of the deduction screen\<close>

text \<open>
  Claim C9. The "Absent Today" figure is the number of active employees minus the number
  of all attendance records fetched for the date; the records are not filtered to active
  employees, so the figure is negative whenever the records outnumber the active
  employees, as for one inactive employee who has an attendance record.
\<close>

theorem absent_today_is_active_minus_all_attendance:
  "absentEmployees es att =
     int (length (filter (\<lambda>emp. e_status emp = active) es)) - int (length att)
   \<and> (length (filter (\<lambda>emp. e_status emp = active) es) < length att
        \<longrightarrow> absentEmployees es att < 0)
   \<and> absentEmployees [inactive_employee] [attendance_of_inactive] = - 1"
  by (simp add: absentEmployees_def totalEmployees_def attendedEmployees_def
      activeEmployees_def or_zero_def inactive_employee_def)

theorem absent_today_is_active_minus_all_attendance_witness:
  "length (filter (\<lambda>emp. e_status emp = active) [inactive_employee])
     < length [attendance_of_inactive]
   \<and> absentEmployees [inactive_employee] [attendance_of_inactive] < 0"
  using absent_today_is_active_minus_all_attendance
    [of "[inactive_employee]" "[attendance_of_inactive]"]
  by (simp add: inactive_employee_def)

section \<open>The unified actions and the edit dialog\<close>

text \<open>
  Claim C8. For a balance row the screen holds, "add" submits \<open>max 0 (current - days)\<close> and
  "deduct" submits \<open>current + days\<close> (the stored used days are not negative and the form
  asks for at least one day, so that sum is not negative); the submitted value is never
  negative on either path; "deduct" has no upper bound: from 45 used days of 45 it submits
  46; the edit dialog submits only values from 0 to the row's annual entitlement.
\<close>

theorem unified_action_used_days:
  "(find (\<lambda>r. employee_id r = eid) lbs = Some b \<longrightarrow>
      handleQuickAction lbs y eid add n = PutLeaveBalance eid y (max 0 (used_days b - n)))
   \<and> (find (\<lambda>r. employee_id r = eid) lbs = Some b \<and> 0 \<le> used_days b + n \<longrightarrow>
      handleQuickAction lbs y eid deduct n = PutLeaveBalance eid y (used_days b + n))
   \<and> (find (\<lambda>r. employee_id r = act_employeeId f) lbs = Some b \<longrightarrow>
      handleSubmit lbs y add f =
        PutLeaveBalance (act_employeeId f) y (max 0 (used_days b - days f)))
   \<and> (find (\<lambda>r. employee_id r = act_employeeId f) lbs = Some b \<and> 0 \<le> used_days b + days f \<longrightarrow>
      handleSubmit lbs y deduct f =
        PutLeaveBalance (act_employeeId f) y (used_days b + days f))
   \<and> 0 \<le> submitted_usedDays (handleQuickAction lbs y eid act n)
   \<and> 0 \<le> submitted_usedDays (handleSubmit lbs y act f)
   \<and> annual_entitlement full_balance
        < submitted_usedDays (handleQuickAction [full_balance] 2025 ''1'' deduct 1)
   \<and> (editDialogOnChange eb parsed = Some r \<longrightarrow>
        0 \<le> submitted_usedDays r \<and> submitted_usedDays r \<le> annual_entitlement eb)"
proof -
  have quick_add: "find (\<lambda>r. employee_id r = eid) lbs = Some b \<longrightarrow>
      handleQuickAction lbs y eid add n = PutLeaveBalance eid y (max 0 (used_days b - n))"
    by (simp add: handleQuickAction_def updateBalanceMutation_def or_zero_def Let_def)
  have quick_deduct: "find (\<lambda>r. employee_id r = eid) lbs = Some b \<and> 0 \<le> used_days b + n \<longrightarrow>
      handleQuickAction lbs y eid deduct n = PutLeaveBalance eid y (used_days b + n)"
    by (simp add: handleQuickAction_def updateBalanceMutation_def or_zero_def Let_def)
  have submit_add: "find (\<lambda>r. employee_id r = act_employeeId f) lbs = Some b \<longrightarrow>
      handleSubmit lbs y add f =
        PutLeaveBalance (act_employeeId f) y (max 0 (used_days b - days f))"
    by (simp add: handleSubmit_def updateBalanceMutation_def or_zero_def Let_def)
  have submit_deduct: "find (\<lambda>r. employee_id r = act_employeeId f) lbs = Some b
      \<and> 0 \<le> used_days b + days f \<longrightarrow>
      handleSubmit lbs y deduct f =
        PutLeaveBalance (act_employeeId f) y (used_days b + days f)"
    by (simp add: handleSubmit_def updateBalanceMutation_def or_zero_def Let_def)
  have quick_nonneg: "0 \<le> submitted_usedDays (handleQuickAction lbs y eid act n)"
    by (simp add: handleQuickAction_def updateBalanceMutation_def initializeBalanceMutation_def
        Let_def split: option.split)
  have submit_nonneg: "0 \<le> submitted_usedDays (handleSubmit lbs y act f)"
    by (simp add: handleSubmit_def updateBalanceMutation_def initializeBalanceMutation_def
        Let_def split: option.split)
  have over: "annual_entitlement full_balance
        < submitted_usedDays (handleQuickAction [full_balance] 2025 ''1'' deduct 1)"
    by (simp add: handleQuickAction_def updateBalanceMutation_def or_zero_def Let_def
        full_balance_def)
  have edit: "editDialogOnChange eb parsed = Some r \<longrightarrow>
        0 \<le> submitted_usedDays r \<and> submitted_usedDays r \<le> annual_entitlement eb"
    by (auto simp: editDialogOnChange_def handleUpdateUsedDays_def Let_def split: if_splits)
  from quick_add quick_deduct submit_add submit_deduct quick_nonneg submit_nonneg over edit
  show ?thesis by blast
qed

theorem unified_action_used_days_witness:
  "find (\<lambda>r. employee_id r = ''1'') [full_balance] = Some full_balance
   \<and> 0 \<le> used_days full_balance + 1
   \<and> handleQuickAction [full_balance] 2025 ''1'' add 1 = PutLeaveBalance ''1'' 2025 44
   \<and> handleQuickAction [full_balance] 2025 ''1'' deduct 1 = PutLeaveBalance ''1'' 2025 46
   \<and> handleSubmit [full_balance] 2025 add deduct_one_day = PutLeaveBalance ''1'' 2025 44
   \<and> handleSubmit [full_balance] 2025 deduct deduct_one_day = PutLeaveBalance ''1'' 2025 46
   \<and> editDialogOnChange full_balance (Some 45) = Some (PutLeaveBalance ''1'' 2025 45)
   \<and> editDialogOnChange full_balance (Some 46) = None"
  using unified_action_used_days
    [of "''1''" "[full_balance]" full_balance 2025 1 deduct_one_day deduct full_balance
        "Some 45" "PutLeaveBalance ''1'' 2025 45"]
  by (simp add: full_balance_def deduct_one_day_def editDialogOnChange_def
      handleUpdateUsedDays_def nan_or_zero_def or_zero_def)

section \<open>The create-balance form\<close>

lemma z_number_min_max_empty:
  "(z_number_min_max path lo hi v = []) = in_range lo hi v"
  by (auto simp: z_number_min_max_def in_range_def split: option.split)

lemma z_string_min_empty: "(z_string_min path (Suc 0) s = []) = (s \<noteq> [])"
  by (cases s) (simp_all add: z_string_min_def)

lemma leaveBalanceSchema_accepts: "(leaveBalanceSchema f = Inr f) = in_bounds f"
  by (simp add: leaveBalanceSchema_def Let_def in_bounds_def z_number_min_max_empty
      z_string_min_empty)

lemma leaveBalanceSchema_cases:
  "leaveBalanceSchema f = Inr f \<or> (\<exists>issues. issues \<noteq> [] \<and> leaveBalanceSchema f = Inl issues)"
  by (simp add: leaveBalanceSchema_def Let_def)

text \<open>
  Claim C7. The schema of the create-balance form accepts the form's values exactly when
  the employee id is not empty, the year is in [2020, 2030], the annual entitlement in
  [1, 60] and the used days in [0, 60]; every other input is refused with at least one
  issue, and nothing is posted for it.
\<close>

theorem create_form_validation:
  "(leaveBalanceSchema f = Inr f) = in_bounds f
   \<and> (\<not> in_bounds f \<longrightarrow> (\<exists>issues. issues \<noteq> [] \<and> leaveBalanceSchema f = Inl issues))
   \<and> ((createBalanceMutation f \<noteq> None) = in_bounds f)"
proof -
  have a: "(leaveBalanceSchema f = Inr f) = in_bounds f" by (rule leaveBalanceSchema_accepts)
  have b: "\<not> in_bounds f \<longrightarrow> (\<exists>issues. issues \<noteq> [] \<and> leaveBalanceSchema f = Inl issues)"
    using leaveBalanceSchema_cases [of f] a by blast
  have c: "(createBalanceMutation f \<noteq> None) = in_bounds f"
  proof (cases "in_bounds f")
    case True
    then have "leaveBalanceSchema f = Inr f" using a by simp
    moreover from True obtain y e u where
      "form_year f = Some y" "annualEntitlement f = Some e" "usedDays f = Some u"
      by (auto simp: in_bounds_def in_range_def split: option.splits)
    ultimately show ?thesis using True by (simp add: createBalanceMutation_def)
  next
    case False
    then obtain issues where "leaveBalanceSchema f = Inl issues" using b by blast
    then show ?thesis using False by (simp add: createBalanceMutation_def)
  qed
  from a b c show ?thesis by blast
qed

theorem create_form_validation_witness:
  "in_bounds default_form \<and> leaveBalanceSchema default_form = Inr default_form
   \<and> \<not> in_bounds overused_form
   \<and> leaveBalanceSchema overused_form = Inl [(''usedDays'', too_big)]"
  using create_form_validation [of default_form] create_form_validation [of overused_form]
  by (simp add: in_bounds_def in_range_def default_form_def overused_form_def
      leaveBalanceSchema_def z_string_min_def z_number_min_max_def)

section \<open>The average utilization of the report\<close>

declare bit_length.simps [simp del]

lemma bit_length_bounds:
  "0 < n \<Longrightarrow> 1 \<le> bit_length n \<and> 2 ^ nat (bit_length n - 1) \<le> n \<and> n < 2 ^ nat (bit_length n)"
proof (induction n rule: bit_length.induct)
  case (1 n)
  show ?case
  proof (cases "n div 2 = 0")
    case True
    with "1.prems" have "n = 1" by presburger
    then show ?thesis by (simp add: bit_length.simps [of 1] bit_length.simps [of 0])
  next
    case False
    with "1.prems" have pos: "0 < n div 2" by presburger
    from "1.IH" "1.prems" pos
    have ih: "1 \<le> bit_length (n div 2)" "2 ^ nat (bit_length (n div 2) - 1) \<le> n div 2"
      "n div 2 < 2 ^ nat (bit_length (n div 2))"
      by auto
    have bl: "bit_length n = 1 + bit_length (n div 2)"
      using "1.prems" by (simp add: bit_length.simps [of n])
    have e1: "nat (bit_length n - 1) = Suc (nat (bit_length (n div 2) - 1))"
      using ih(1) bl by simp
    have e2: "nat (bit_length n) = Suc (nat (bit_length (n div 2)))"
      using ih(1) bl by simp
    have lo: "2 * (n div 2) \<le> n" and hi: "n < 2 * (n div 2) + 2" by presburger+
    have "(2::int) ^ nat (bit_length n - 1) \<le> n"
      unfolding e1 using ih(2) lo by simp
    moreover have "n < 2 ^ nat (bit_length n)"
      unfolding e2 using ih(3) hi by simp
    ultimately show ?thesis using bl ih(1) by simp
  qed
qed

lemma bit_length_powi:
  assumes "0 < n"
  shows "2 powi (bit_length n - 1) \<le> (of_int n :: rat)" "(of_int n :: rat) < 2 powi (bit_length n)"
proof -
  from bit_length_bounds [OF assms]
  have b: "1 \<le> bit_length n" "2 ^ nat (bit_length n - 1) \<le> n" "n < 2 ^ nat (bit_length n)"
    by auto
  have "(of_int (2 ^ nat (bit_length n - 1)) :: rat) \<le> of_int n"
    using b(2) by (simp only: of_int_le_iff)
  then show "2 powi (bit_length n - 1) \<le> (of_int n :: rat)"
    using b(1) by (simp add: power_int_def)
  have "(of_int n :: rat) < of_int (2 ^ nat (bit_length n))"
    using b(3) by (simp only: of_int_less_iff)
  then show "(of_int n :: rat) < 2 powi (bit_length n)"
    using b(1) by (simp add: power_int_def)
qed

lemma binary_exponent_bounds:
  assumes "0 < a"
  shows "2 powi (binary_exponent a) \<le> a \<and> a < 2 powi (binary_exponent a + 1)"
proof -
  obtain p d where pd: "quotient_of a = (p, d)" by (cases "quotient_of a")
  then have d: "0 < d" and a: "a = of_int p / of_int d"
    by (auto dest: quotient_of_denom_pos quotient_of_div)
  have p: "0 < p" using assms d a by (simp add: zero_less_divide_iff)
  let ?e0 = "bit_length p - bit_length d"
  have dpos: "(0::rat) < of_int d" using d by simp
  have up: "a < 2 powi (?e0 + 1)"
  proof -
    have "of_int p < (2::rat) powi (bit_length p)" using bit_length_powi(2) [OF p] .
    moreover have "(2::rat) powi (?e0 + 1) * 2 powi (bit_length d - 1) = 2 powi (bit_length p)"
      by (simp flip: power_int_add)
    moreover have "(2::rat) powi (?e0 + 1) * 2 powi (bit_length d - 1)
        \<le> 2 powi (?e0 + 1) * of_int d"
      using bit_length_powi(1) [OF d] by (intro mult_left_mono) simp_all
    ultimately have "of_int p < (2::rat) powi (?e0 + 1) * of_int d"
      by linarith
    then show ?thesis unfolding a using dpos by (simp add: divide_less_eq)
  qed
  have low: "2 powi (?e0 - 1) \<le> a"
  proof -
    have "(2::rat) powi (bit_length p - 1) \<le> of_int p" using bit_length_powi(1) [OF p] .
    moreover have "(2::rat) powi (?e0 - 1) * 2 powi (bit_length d) = 2 powi (bit_length p - 1)"
      by (simp flip: power_int_add)
    moreover have "(2::rat) powi (?e0 - 1) * of_int d
        \<le> 2 powi (?e0 - 1) * 2 powi (bit_length d)"
      using bit_length_powi(2) [OF d] by (intro mult_left_mono) simp_all
    ultimately have "(2::rat) powi (?e0 - 1) * of_int d \<le> of_int p"
      by linarith
    then show ?thesis unfolding a using dpos by (simp add: le_divide_eq)
  qed
  show ?thesis
  proof (cases "2 powi ?e0 \<le> a")
    case True
    then have "binary_exponent a = ?e0" by (simp add: binary_exponent_def pd Let_def)
    then show ?thesis using True up by simp
  next
    case False
    then have "binary_exponent a = ?e0 - 1" by (simp add: binary_exponent_def pd Let_def)
    then show ?thesis using False low by simp
  qed
qed

lemma binary_exponent_between:
  assumes "0 < a" "2 powi lo \<le> a" "a < 2 powi hi"
  shows "lo \<le> binary_exponent a \<and> binary_exponent a < hi"
proof -
  note b = binary_exponent_bounds [OF assms(1)]
  have "binary_exponent a < hi"
  proof (rule ccontr)
    assume "\<not> binary_exponent a < hi"
    then have "(2::rat) powi hi \<le> 2 powi (binary_exponent a)"
      by (intro power_int_increasing) simp_all
    with b assms(3) show False by linarith
  qed
  moreover have "lo \<le> binary_exponent a"
  proof (rule ccontr)
    assume "\<not> lo \<le> binary_exponent a"
    then have "(2::rat) powi (binary_exponent a + 1) \<le> 2 powi lo"
      by (intro power_int_increasing) simp_all
    with b assms(2) show False by linarith
  qed
  ultimately show ?thesis by simp
qed

lemma round_half_even_error: "\<bar>of_int (round_half_even m) - m\<bar> \<le> 1 / 2"
proof -
  have "of_int \<lfloor>m\<rfloor> \<le> m" "m < of_int \<lfloor>m\<rfloor> + 1" by linarith+
  then show ?thesis
    by (auto simp: round_half_even_def Let_def)
qed

lemma round_half_even_nonneg: "0 \<le> m \<Longrightarrow> 0 \<le> round_half_even m"
  by (auto simp: round_half_even_def Let_def)

lemma abs_scaled: "0 < c \<Longrightarrow> \<bar>u - q / c\<bar> * c = \<bar>u * c - q\<bar>" for c u q :: rat
proof -
  assume c: "0 < c"
  then have "\<bar>u - q / c\<bar> * c = \<bar>(u - q / c) * c\<bar>" by (simp add: abs_mult)
  also have "(u - q / c) * c = u * c - q" using c by (simp add: field_simps)
  finally show ?thesis .
qed

text \<open>In the normal range a double is within the fraction \<open>2^-53\<close> of the exact value.\<close>

lemma nearest_double_positive:
  assumes "0 < q" "- 1022 \<le> binary_exponent q" "binary_exponent q \<le> 1022"
  shows "\<exists>x. nearest_double q = Finite x \<and> 0 \<le> x \<and> \<bar>x - q\<bar> \<le> q / 2 ^ 53"
proof -
  let ?e = "binary_exponent q"
  let ?k = "?e - 52"
  let ?m = "round_half_even (q / 2 powi ?k)"
  have k: "max (?e - 52) (- 1074) = ?k" using assms(2) by simp
  have nd: "nearest_double q = Finite (of_int ?m * 2 powi ?k)"
    using assms by (simp add: nearest_double_def Let_def k)
  have pk: "(0::rat) < 2 powi ?k" by simp
  have m0: "0 \<le> ?m" using assms(1) pk by (intro round_half_even_nonneg) simp
  have "\<bar>of_int ?m - q / 2 powi ?k\<bar> \<le> 1 / 2" by (rule round_half_even_error)
  then have "\<bar>of_int ?m - q / 2 powi ?k\<bar> * 2 powi ?k \<le> 1 / 2 * 2 powi ?k"
    using pk by (intro mult_right_mono) simp_all
  moreover have "\<bar>of_int ?m - q / 2 powi ?k\<bar> * 2 powi ?k = \<bar>of_int ?m * 2 powi ?k - q\<bar>"
    using pk by (rule abs_scaled)
  ultimately have err: "\<bar>of_int ?m * 2 powi ?k - q\<bar> \<le> 2 powi ?k / 2" by simp
  have "(2::rat) powi ?e = 2 powi ?k * 2 powi 52"
    using power_int_add [of "2::rat" ?k 52] by simp
  then have "(2::rat) powi ?k / 2 = 2 powi ?e / 2 ^ 53" by simp
  also have "\<dots> \<le> q / 2 ^ 53"
    using binary_exponent_bounds [OF assms(1)] by (simp add: divide_right_mono)
  finally have "(2::rat) powi ?k / 2 \<le> q / 2 ^ 53" .
  with err have "\<bar>of_int ?m * 2 powi ?k - q\<bar> \<le> q / 2 ^ 53" by linarith
  moreover have "(0::rat) \<le> of_int ?m * 2 powi ?k" using m0 pk by simp
  ultimately show ?thesis using nd by blast
qed

lemma nearest_double_in_range:
  assumes "0 < q" "1 / 2 ^ 60 \<le> q" "q < 2 ^ 61"
  shows "\<exists>x. nearest_double q = Finite x \<and> 0 \<le> x \<and> \<bar>x - q\<bar> \<le> q / 2 ^ 53"
proof -
  have "(2::rat) powi (- 60) \<le> q" using assms(2) by (simp add: power_int_minus_divide)
  moreover have "q < 2 powi 61" using assms(3) by simp
  ultimately have "- 60 \<le> binary_exponent q \<and> binary_exponent q < 61"
    by (rule binary_exponent_between [OF assms(1)])
  then show ?thesis by (intro nearest_double_positive [OF assms(1)]) simp_all
qed

lemma abs_triangle_100:
  "\<bar>x - q * 100\<bar> \<le> \<bar>x - y * 100\<bar> + 100 * \<bar>y - q\<bar>" for x y q :: rat
  by (simp add: abs_if split: if_splits)

text \<open>
  The double that \<open>u / n * 100\<close> computes for integers \<open>0 \<le> u\<close> and \<open>0 < n\<close> up to \<open>2^53\<close>: it
  is finite, not negative, and within the fraction \<open>2^-51\<close> of the exact percentage.
\<close>

lemma percentage_double:
  assumes "0 \<le> u" "u \<le> 2 ^ 53" "0 < n" "n \<le> 2 ^ 53"
  shows "\<exists>x. js_times (js_div u n) 100 = Finite x \<and> 0 \<le> x \<and>
             \<bar>x - of_int u / of_int n * 100\<bar> \<le> of_int u / of_int n * 100 / 2 ^ 51"
proof (cases "u = 0")
  case True
  then show ?thesis using assms(3)
    by (simp add: js_div_def js_times_def nearest_double_def)
next
  case False
  let ?q = "of_int u / of_int n :: rat"
  have u1: "(1::rat) \<le> of_int u" using False assms(1) by simp
  have u2: "(of_int u :: rat) \<le> 2 ^ 53" using assms(2) by (simp flip: of_int_le_iff)
  have n1: "(1::rat) \<le> of_int n" using assms(3) by simp
  have n2: "(of_int n :: rat) \<le> 2 ^ 53" using assms(4) by (simp flip: of_int_le_iff)
  have q0: "0 < ?q" using u1 n1 by simp
  have qlo: "1 / 2 ^ 53 \<le> ?q"
  proof -
    have "(1::rat) / 2 ^ 53 \<le> 1 / of_int n" using n1 n2 by (intro divide_left_mono) simp_all
    also have "\<dots> \<le> ?q" using u1 n1 by (intro divide_right_mono) simp_all
    finally show ?thesis .
  qed
  have qhi: "?q \<le> 2 ^ 53"
  proof -
    have "?q \<le> of_int u / 1" using u1 n1 by (intro divide_left_mono) simp_all
    then show ?thesis using u2 by simp
  qed
  have "(1::rat) / 2 ^ 60 \<le> 1 / 2 ^ 53" by simp
  then have qlo': "1 / 2 ^ 60 \<le> ?q" using qlo by (rule order_trans)
  have "(2::rat) ^ 53 < 2 ^ 61" by simp
  with qhi have qhi': "?q < 2 ^ 61" by (rule le_less_trans)
  have "\<exists>x. nearest_double ?q = Finite x \<and> 0 \<le> x \<and> \<bar>x - ?q\<bar> \<le> ?q / 2 ^ 53"
    using q0 qlo' qhi' by (rule nearest_double_in_range)
  then obtain x1 where x1: "nearest_double ?q = Finite x1" "\<bar>x1 - ?q\<bar> \<le> ?q / 2 ^ 53"
    by blast
  have x1lo: "?q / 2 \<le> x1" and x1hi: "x1 \<le> 2 * ?q" using x1(2) q0 by (simp_all add: abs_le_iff)
  have "\<exists>x. nearest_double (x1 * 100) = Finite x \<and> 0 \<le> x \<and>
            \<bar>x - x1 * 100\<bar> \<le> x1 * 100 / 2 ^ 53"
    using x1lo x1hi q0 qlo qhi by (intro nearest_double_in_range) simp_all
  then obtain x where x: "nearest_double (x1 * 100) = Finite x" "0 \<le> x"
      "\<bar>x - x1 * 100\<bar> \<le> x1 * 100 / 2 ^ 53"
    by blast
  have res: "js_times (js_div u n) 100 = Finite x"
    using assms(3) x1(1) x(1) by (simp add: js_div_def js_times_def)
  have "\<bar>x - ?q * 100\<bar> \<le> \<bar>x - x1 * 100\<bar> + 100 * \<bar>x1 - ?q\<bar>"
    by (rule abs_triangle_100)
  also have "\<dots> \<le> x1 * 100 / 2 ^ 53 + 100 * (?q / 2 ^ 53)"
    using x(3) x1(2) by (intro add_mono mult_left_mono) simp_all
  also have "\<dots> \<le> (2 * ?q) * 100 / 2 ^ 53 + 100 * (?q / 2 ^ 53)" using x1hi by simp
  also have "\<dots> \<le> ?q * 100 / 2 ^ 51" using q0 by simp
  finally show ?thesis using res x(2) by blast
qed

text \<open>\<open>toFixed(1)\<close> of a value that is not negative takes the nearest tenth, a tie upward.\<close>

lemma tenths_nearest:
  assumes "0 \<le> x"
  shows "of_nat (tenths x) / 10 - 1 / 20 \<le> x \<and> x < of_nat (tenths x) / 10 + 1 / 20"
proof -
  define r where "r = x * 10 + 1 / 2"
  have r0: "0 \<le> r" using assms by (simp add: r_def)
  then have f0: "0 \<le> \<lfloor>r\<rfloor>" by simp
  have n: "(of_nat (tenths x) :: rat) = of_int \<lfloor>r\<rfloor>"
    using f0 assms by (simp add: tenths_def r_def)
  have "of_int \<lfloor>r\<rfloor> \<le> r" "r < of_int \<lfloor>r\<rfloor> + 1" by linarith+
  then show ?thesis unfolding n r_def by linarith
qed

lemma scenario_percentage: "toFixed1 (js_times (js_div 30 90) 100) = ''33.3''"
  by code_simp

lemma single_percentage: "toFixed1 (js_times (js_div 10 45) 100) = ''22.2''"
  by code_simp

lemma tie_percentage: "toFixed1 (js_times (js_div 23 80) 100) = ''28.7''"
  by code_simp

text \<open>
  Claim C4, as amended. With no report rows the average utilization is 0. With at least
  one row, a total entitlement above 0 and a total of used days that is not negative
  (both at most \<open>2^53\<close>), it is the double \<open>x\<close> that \<open>totalUsed / totalEntitlement * 100\<close>
  computes, which is within the fraction \<open>2^-51\<close> of the exact percentage, rounded to one
  decimal: the digits of the number \<open>n\<close> of tenths nearest to \<open>x\<close>, a tie going upward. Two
  employees with entitlement 45 each and 10 and 20 used days give total entitlement 90,
  total used 30 and the average "33.3".
\<close>

theorem average_utilization_amended:
  "(rows = [] \<longrightarrow> averageUtilization rows = RNumber 0)
   \<and> (rows \<noteq> [] \<and> 0 < totalEntitlement rows \<and> totalEntitlement rows \<le> 2 ^ 53
        \<and> 0 \<le> totalUsed rows \<and> totalUsed rows \<le> 2 ^ 53 \<longrightarrow>
        (\<exists>x n. js_times (js_div (totalUsed rows) (totalEntitlement rows)) 100 = Finite x
           \<and> 0 \<le> x
           \<and> \<bar>x - of_int (totalUsed rows) / of_int (totalEntitlement rows) * 100\<bar>
               \<le> of_int (totalUsed rows) / of_int (totalEntitlement rows) * 100 / 2 ^ 51
           \<and> of_nat n / 10 - 1 / 20 \<le> x \<and> x < of_nat n / 10 + 1 / 20
           \<and> averageUtilization rows = RString (format_tenths n)))
   \<and> totalEntitlement [report_entry ''1'' 45 10, report_entry ''2'' 45 20] = 90
   \<and> totalUsed [report_entry ''1'' 45 10, report_entry ''2'' 45 20] = 30
   \<and> averageUtilization [report_entry ''1'' 45 10, report_entry ''2'' 45 20] = RString ''33.3''"
proof -
  let ?u = "totalUsed rows" and ?n = "totalEntitlement rows"
  have empty: "rows = [] \<longrightarrow> averageUtilization rows = RNumber 0"
    by (simp add: averageUtilization_def report_totalEmployees_def)
  have rounded: "rows \<noteq> [] \<and> 0 < ?n \<and> ?n \<le> 2 ^ 53 \<and> 0 \<le> ?u \<and> ?u \<le> 2 ^ 53 \<longrightarrow>
        (\<exists>x n. js_times (js_div ?u ?n) 100 = Finite x
           \<and> 0 \<le> x
           \<and> \<bar>x - of_int ?u / of_int ?n * 100\<bar> \<le> of_int ?u / of_int ?n * 100 / 2 ^ 51
           \<and> of_nat n / 10 - 1 / 20 \<le> x \<and> x < of_nat n / 10 + 1 / 20
           \<and> averageUtilization rows = RString (format_tenths n))"
  proof
    assume h: "rows \<noteq> [] \<and> 0 < ?n \<and> ?n \<le> 2 ^ 53 \<and> 0 \<le> ?u \<and> ?u \<le> 2 ^ 53"
    then obtain x where x: "js_times (js_div ?u ?n) 100 = Finite x" "0 \<le> x"
        "\<bar>x - of_int ?u / of_int ?n * 100\<bar> \<le> of_int ?u / of_int ?n * 100 / 2 ^ 51"
      using percentage_double [of ?u ?n] by blast
    have "averageUtilization rows = RString (format_tenths (tenths x))"
      using h x(1) x(2) by (simp add: averageUtilization_def report_totalEmployees_def toFixed1_def)
    then show "\<exists>x n. js_times (js_div ?u ?n) 100 = Finite x
           \<and> 0 \<le> x
           \<and> \<bar>x - of_int ?u / of_int ?n * 100\<bar> \<le> of_int ?u / of_int ?n * 100 / 2 ^ 51
           \<and> of_nat n / 10 - 1 / 20 \<le> x \<and> x < of_nat n / 10 + 1 / 20
           \<and> averageUtilization rows = RString (format_tenths n)"
      using x tenths_nearest [OF x(2)] by blast
  qed
  have ent: "totalEntitlement [report_entry ''1'' 45 10, report_entry ''2'' 45 20] = 90"
    by (simp add: totalEntitlement_def report_entry_def or_zero_def)
  have used: "totalUsed [report_entry ''1'' 45 10, report_entry ''2'' 45 20] = 30"
    by (simp add: totalUsed_def report_entry_def or_zero_def)
  have avg: "averageUtilization [report_entry ''1'' 45 10, report_entry ''2'' 45 20] = RString ''33.3''"
    by (simp add: averageUtilization_def report_totalEmployees_def ent used scenario_percentage)
  from empty rounded ent used avg show ?thesis by blast
qed

theorem average_utilization_amended_witness:
  "[report_entry ''1'' 45 10] \<noteq> []
   \<and> 0 < totalEntitlement [report_entry ''1'' 45 10]
   \<and> totalEntitlement [report_entry ''1'' 45 10] \<le> 2 ^ 53
   \<and> 0 \<le> totalUsed [report_entry ''1'' 45 10]
   \<and> totalUsed [report_entry ''1'' 45 10] \<le> 2 ^ 53
   \<and> averageUtilization [report_entry ''1'' 45 10] = RString ''22.2''
   \<and> averageUtilization [] = RNumber 0"
proof -
  have ent: "totalEntitlement [report_entry ''1'' 45 10] = 45"
    by (simp add: totalEntitlement_def report_entry_def or_zero_def)
  have used: "totalUsed [report_entry ''1'' 45 10] = 10"
    by (simp add: totalUsed_def report_entry_def or_zero_def)
  have one: "averageUtilization [report_entry ''1'' 45 10] = RString ''22.2''"
    by (simp add: averageUtilization_def report_totalEmployees_def ent used single_percentage)
  show ?thesis
    using average_utilization_amended [of "[report_entry ''1'' 45 10]"]
      average_utilization_amended [of "[]"] one ent used
    by simp
qed

text \<open>
  The claim as it was stated fails in two ways. Where rows exist and none has an
  entitlement, the guard (which tests the number of rows) lets the division \<open>0 / 0\<close> run and
  the screen shows "NaN", not 0. And the value that is rounded is the double, not the
  exact quotient: entitlements 40 and 40 with 10 and 13 used days are exactly 28.75
  percent, which rounds to 28.8, but the double is just below and the screen shows "28.7".
\<close>

theorem average_utilization_counterexample:
  "totalEntitlement [zero_entitlement_entry] = 0
   \<and> averageUtilization [zero_entitlement_entry] = RString ''NaN''
   \<and> averageUtilization [zero_entitlement_entry] \<noteq> RNumber 0
   \<and> of_int (totalUsed tie_report) / of_int (totalEntitlement tie_report) * 100 = (2875 / 100 :: rat)
   \<and> averageUtilization tie_report = RString ''28.7''"
proof -
  have z: "totalEntitlement [zero_entitlement_entry] = 0"
    "averageUtilization [zero_entitlement_entry] = RString ''NaN''"
    by (simp_all add: averageUtilization_def report_totalEmployees_def totalEntitlement_def
        totalUsed_def zero_entitlement_entry_def report_entry_def or_zero_def js_div_def
        js_times_def toFixed1_def)
  have ent: "totalEntitlement tie_report = 80"
    by (simp add: totalEntitlement_def tie_report_def report_entry_def or_zero_def)
  have used: "totalUsed tie_report = 23"
    by (simp add: totalUsed_def tie_report_def report_entry_def or_zero_def)
  have len: "report_totalEmployees tie_report = 2"
    by (simp add: report_totalEmployees_def tie_report_def)
  have avg: "averageUtilization tie_report = RString ''28.7''"
    by (simp add: averageUtilization_def len ent used tie_percentage)
  from z ent used avg show ?thesis by simp
qed

section \<open>The deduction processor\<close>

lemma deduct_employee_frame:
  "employees (fst (deduct_employee d y st e)) = employees st \<and>
   attendance (fst (deduct_employee d y st e)) = attendance st \<and>
   leave_requests (fst (deduct_employee d y st e)) = leave_requests st \<and>
   holidays (fst (deduct_employee d y st e)) = holidays st"
  by (simp add: deduct_employee_def Let_def)

lemma deduct_all_frame:
  "employees (fst (deduct_all d y es st n)) = employees st \<and>
   attendance (fst (deduct_all d y es st n)) = attendance st \<and>
   leave_requests (fst (deduct_all d y es st n)) = leave_requests st \<and>
   holidays (fst (deduct_all d y es st n)) = holidays st"
proof (induction es arbitrary: st n)
  case Nil
  show ?case by simp
next
  case (Cons e es)
  obtain st' b where step: "deduct_employee d y st e = (st', b)"
    by (cases "deduct_employee d y st e")
  with deduct_employee_frame [of d y st e]
  have "employees st' = employees st \<and> attendance st' = attendance st \<and>
        leave_requests st' = leave_requests st \<and> holidays st' = holidays st"
    by simp
  with Cons.IH [of st' "if b then n + 1 else n"] step show ?case by simp
qed

text \<open>
  Claim C6. A deduction run changes leave balances only: the attendance records and the
  leave requests (and the employees and the holidays) of the state after the run are
  those before it, for every state, date, employee filter and year.
\<close>

theorem deduction_changes_only_balances:
  "attendance (fst (process_deduction st d employeeFilter y)) = attendance st \<and>
   leave_requests (fst (process_deduction st d employeeFilter y)) = leave_requests st \<and>
   employees (fst (process_deduction st d employeeFilter y)) = employees st \<and>
   holidays (fst (process_deduction st d employeeFilter y)) = holidays st"
  using deduct_all_frame [of d y "selected_employees st employeeFilter" st 0]
  by (simp add: process_deduction_def Let_def case_prod_beta)

lemma deduct_employee_active:
  "e_status e = active \<Longrightarrow>
   deduct_employee d y st e =
     (if eligible_for_deduction st d y e
      then (st\<lparr>leave_balances :=
               (leave_balances st)((e_id e, y) \<mapsto> charged (current_balance st (e_id e) y))\<rparr>, True)
      else (st, False))"
  by (auto simp: deduct_employee_def eligible_for_deduction_def Let_def charged_def)

lemma eligible_same:
  "attendance st' = attendance st \<Longrightarrow> leave_requests st' = leave_requests st \<Longrightarrow>
   holidays st' = holidays st \<Longrightarrow> leave_balances st' (e_id e, y) = leave_balances st (e_id e, y) \<Longrightarrow>
   eligible_for_deduction st' d y e = eligible_for_deduction st d y e"
  by (simp add: eligible_for_deduction_def has_attendance_def has_approved_leave_def
      is_holiday_def current_balance_def)

lemma deduct_all_balances:
  "distinct (map e_id es) \<Longrightarrow> \<forall>e\<in>set es. e_status e = active \<Longrightarrow>
   leave_balances (fst (deduct_all d y es st n)) (i, y') =
     (if y' = y \<and> (\<exists>e\<in>set es. e_id e = i \<and> eligible_for_deduction st d y e)
      then Some (charged (current_balance st i y))
      else leave_balances st (i, y'))
   \<and> snd (deduct_all d y es st n) = n + length (filter (eligible_for_deduction st d y) es)"
proof (induction es arbitrary: st n)
  case Nil
  show ?case by simp
next
  case (Cons e es)
  let ?st' = "fst (deduct_employee d y st e)"
  let ?b = "snd (deduct_employee d y st e)"
  have act: "e_status e = active" using Cons.prems by simp
  have step: "deduct_employee d y st e = (?st', ?b)" by simp
  have frame: "attendance ?st' = attendance st" "leave_requests ?st' = leave_requests st"
    "holidays ?st' = holidays st"
    using deduct_employee_frame [of d y st e] by simp_all
  have other: "leave_balances ?st' (j, y'') = leave_balances st (j, y'')"
    if "j \<noteq> e_id e \<or> y'' \<noteq> y" for j y''
    using that by (auto simp: deduct_employee_active [OF act])
  have "e_id e \<notin> e_id ` set es" using Cons.prems(1) by simp
  then have notin: "\<forall>e'\<in>set es. e_id e' \<noteq> e_id e" by (metis imageI)
  have same: "eligible_for_deduction ?st' d y e' = eligible_for_deduction st d y e'"
    if "e' \<in> set es" for e'
  proof -
    have "e_id e' \<noteq> e_id e" using that notin by blast
    then show ?thesis using frame other by (intro eligible_same) auto
  qed
  have cur: "current_balance ?st' j y = current_balance st j y" if "j \<noteq> e_id e" for j
    using other [of j y] that by (simp add: current_balance_def)
  have IH: "leave_balances (fst (deduct_all d y es ?st' m)) (i, y') =
     (if y' = y \<and> (\<exists>e\<in>set es. e_id e = i \<and> eligible_for_deduction ?st' d y e)
      then Some (charged (current_balance ?st' i y))
      else leave_balances ?st' (i, y'))
   \<and> snd (deduct_all d y es ?st' m) = m + length (filter (eligible_for_deduction ?st' d y) es)"
    for m
    using Cons.IH [of ?st' m] Cons.prems by simp
  have filt: "filter (eligible_for_deduction ?st' d y) es = filter (eligible_for_deduction st d y) es"
    using same by (intro filter_cong) auto
  have unfold: "deduct_all d y (e # es) st n = deduct_all d y es ?st' (if ?b then n + 1 else n)"
    by (simp add: case_prod_beta)
  have b: "?b = eligible_for_deduction st d y e"
    by (simp add: deduct_employee_active [OF act])
  have here: "leave_balances ?st' (e_id e, y) =
      (if eligible_for_deduction st d y e then Some (charged (current_balance st (e_id e) y))
       else leave_balances st (e_id e, y))"
    by (simp add: deduct_employee_active [OF act])
  show ?case
  proof (cases "i = e_id e \<and> y' = y")
    case True
    then have "\<not> (\<exists>e'\<in>set es. e_id e' = i \<and> eligible_for_deduction ?st' d y e')"
      using notin by auto
    then show ?thesis
      unfolding unfold using IH [of "if ?b then n + 1 else n"] True here b filt notin
      by auto
  next
    case False
    then have o: "leave_balances ?st' (i, y') = leave_balances st (i, y')"
      using other [of i y'] by auto
    show ?thesis
    proof (cases "y' = y")
      case True
      with False have ne: "i \<noteq> e_id e" by simp
      have ex: "(\<exists>e'\<in>set es. e_id e' = i \<and> eligible_for_deduction ?st' d y e') =
                (\<exists>e'\<in>set (e # es). e_id e' = i \<and> eligible_for_deduction st d y e')"
        using same ne by auto
      show ?thesis
        unfolding unfold using IH [of "if ?b then n + 1 else n"] o cur [OF ne] ex b filt True
        by auto
    next
      case False
      then show ?thesis
        unfolding unfold using IH [of "if ?b then n + 1 else n"] o b filt
        by auto
    qed
  qed
qed

lemma distinct_selected:
  "distinct (map e_id (employees st)) \<Longrightarrow> distinct (map e_id (selected_employees st f))"
  by (simp add: selected_employees_def distinct_map_filter)

text \<open>
  Claim C1. Where every employee has an identifier of its own, a deduction run for a date
  (over all employees) charges exactly the employees eligible for deduction on that date:
  the year's balance of each becomes its balance before the run (the default of 45 days
  where there was no row) with one more used day and the same entitlement; every other
  balance, of another employee or another year, stays as it was; and the run reports as
  many deductions as there are eligible employees.
\<close>

theorem deduction_charges_exactly_the_eligible:
  assumes "distinct (map e_id (employees st))"
  shows "(\<forall>e\<in>set (employees st). eligible_for_deduction st d y e \<longrightarrow>
            leave_balances (fst (process_deduction st d None y)) (e_id e, y) =
              Some (charged (current_balance st (e_id e) y))
            \<and> sb_used_days (charged (current_balance st (e_id e) y)) =
                sb_used_days (current_balance st (e_id e) y) + 1
            \<and> sb_annual_entitlement (charged (current_balance st (e_id e) y)) =
                sb_annual_entitlement (current_balance st (e_id e) y))
       \<and> (\<forall>i y'. \<not> (y' = y \<and> (\<exists>e\<in>set (employees st). e_id e = i \<and> eligible_for_deduction st d y e))
            \<longrightarrow> leave_balances (fst (process_deduction st d None y)) (i, y') =
                leave_balances st (i, y'))
       \<and> deductedCount (snd (process_deduction st d None y)) =
           length (filter (eligible_for_deduction st d y) (employees st))"
proof -
  let ?sel = "selected_employees st None"
  have d: "distinct (map e_id ?sel)" using assms by (rule distinct_selected)
  have a: "\<forall>e\<in>set ?sel. e_status e = active" by (simp add: selected_employees_def)
  have ex: "(\<exists>e\<in>set ?sel. e_id e = i \<and> eligible_for_deduction st d y e) =
            (\<exists>e\<in>set (employees st). e_id e = i \<and> eligible_for_deduction st d y e)" for i
    by (auto simp: selected_employees_def eligible_for_deduction_def)
  have fl: "filter (eligible_for_deduction st d y) ?sel =
            filter (eligible_for_deduction st d y) (employees st)"
    by (auto simp: selected_employees_def eligible_for_deduction_def intro: filter_cong)
  have p: "fst (process_deduction st d None y) = fst (deduct_all d y ?sel st 0)"
     "deductedCount (snd (process_deduction st d None y)) = snd (deduct_all d y ?sel st 0)"
    by (simp_all add: process_deduction_def Let_def case_prod_beta)
  have main: "leave_balances (fst (process_deduction st d None y)) (i, y') =
     (if y' = y \<and> (\<exists>e\<in>set (employees st). e_id e = i \<and> eligible_for_deduction st d y e)
      then Some (charged (current_balance st i y))
      else leave_balances st (i, y'))" for i y'
    using deduct_all_balances [OF d a, of d y st 0 i y'] ex [of i] p by simp
  have cnt: "deductedCount (snd (process_deduction st d None y)) =
           length (filter (eligible_for_deduction st d y) (employees st))"
    using deduct_all_balances [OF d a, of d y st 0 undefined undefined] fl p by simp
  have ch: "sb_used_days (charged b) = sb_used_days b + 1 \<and>
            sb_annual_entitlement (charged b) = sb_annual_entitlement b" for b
    by (simp add: charged_def make_balance_def)
  show ?thesis using main cnt ch by auto
qed


lemma example_distinct: "distinct (map e_id (employees example_state))"
  by (simp add: example_state_def alice_def carol_def dave_def)

lemma example_alice: "eligible_for_deduction example_state monday 2025 alice"
  by (simp add: eligible_for_deduction_def example_state_def alice_def monday_def
      has_attendance_def has_approved_leave_def is_holiday_def is_weekend_def
      current_balance_def make_balance_def compute_remaining_def)

lemma example_carol: "\<not> eligible_for_deduction example_state monday 2025 carol"
  by (simp add: eligible_for_deduction_def example_state_def carol_def monday_def
      has_attendance_def)

lemma example_dave: "\<not> eligible_for_deduction example_state monday 2025 dave"
  by (simp add: eligible_for_deduction_def example_state_def dave_def monday_def
      has_attendance_def has_approved_leave_def is_holiday_def is_weekend_def
      current_balance_def make_balance_def compute_remaining_def)

lemma example_run_once:
  "fst (process_deduction example_state monday None 2025) =
     example_state\<lparr>leave_balances := (leave_balances example_state)((''1'', 2025) \<mapsto> make_balance 45 1)\<rparr>"
  "deductedCount (snd (process_deduction example_state monday None 2025)) = 1"
  by (simp_all add: process_deduction_def selected_employees_def deduct_employee_def Let_def
      example_state_def alice_def carol_def dave_def monday_def
      has_attendance_def has_approved_leave_def is_holiday_def is_weekend_def
      current_balance_def make_balance_def compute_remaining_def)

lemma example_run_twice:
  "fst (process_deduction (fst (process_deduction example_state monday None 2025)) monday None 2025) =
     example_state\<lparr>leave_balances := (leave_balances example_state)((''1'', 2025) \<mapsto> make_balance 45 2)\<rparr>"
  unfolding example_run_once
  by (simp add: process_deduction_def selected_employees_def deduct_employee_def Let_def
      example_state_def alice_def carol_def dave_def monday_def
      has_attendance_def has_approved_leave_def is_holiday_def is_weekend_def
      current_balance_def make_balance_def compute_remaining_def)

theorem deduction_charges_exactly_the_eligible_witness:
  "distinct (map e_id (employees example_state))
   \<and> eligible_for_deduction example_state monday 2025 alice
   \<and> leave_balances (fst (process_deduction example_state monday None 2025)) (''1'', 2025) =
       Some (make_balance 45 1)
   \<and> leave_balances (fst (process_deduction example_state monday None 2025)) (''2'', 2025) =
       Some (make_balance 45 10)
   \<and> leave_balances (fst (process_deduction example_state monday None 2025)) (''3'', 2025) =
       Some (make_balance 45 45)
   \<and> leave_balances (fst (process_deduction example_state monday None 2025)) (''1'', 2024) = None
   \<and> deductedCount (snd (process_deduction example_state monday None 2025)) = 1"
proof -
  note t = deduction_charges_exactly_the_eligible [OF example_distinct, of monday 2025]
  have a: "alice \<in> set (employees example_state)" by (simp add: example_state_def)
  have ida: "e_id alice = ''1''" by (simp add: alice_def)
  have cur: "current_balance example_state ''1'' 2025 = make_balance 45 0"
    by (simp add: current_balance_def example_state_def)
  have ch: "charged (make_balance 45 0) = make_balance 45 1"
    by (simp add: charged_def make_balance_def)
  have one: "leave_balances (fst (process_deduction example_state monday None 2025)) (''1'', 2025) =
       Some (make_balance 45 1)"
    using t a example_alice ida cur ch by fastforce
  have el: "filter (eligible_for_deduction example_state monday 2025) (employees example_state) = [alice]"
    using example_alice example_carol example_dave by (simp add: example_state_def)
  have cnt: "deductedCount (snd (process_deduction example_state monday None 2025)) = 1"
    using t el by simp
  have only: "(\<exists>e\<in>set (employees example_state). e_id e = i \<and>
                 eligible_for_deduction example_state monday 2025 e) = (i = ''1'')" for i
    using example_alice example_carol example_dave
    by (auto simp: example_state_def ida)
  have rest: "leave_balances (fst (process_deduction example_state monday None 2025)) (i, y') =
       leave_balances example_state (i, y')" if "\<not> (y' = 2025 \<and> i = ''1'')" for i y'
    using t that only [of i] by blast
  have two: "leave_balances (fst (process_deduction example_state monday None 2025)) (''2'', 2025) =
       Some (make_balance 45 10)"
    using rest [of 2025 "''2''"] by (simp add: example_state_def)
  have three: "leave_balances (fst (process_deduction example_state monday None 2025)) (''3'', 2025) =
       Some (make_balance 45 45)"
    using rest [of 2025 "''3''"] by (simp add: example_state_def)
  have old: "leave_balances (fst (process_deduction example_state monday None 2025)) (''1'', 2024) = None"
    using rest [of 2024 "''1''"] by (simp add: example_state_def)
  from example_distinct example_alice one two three old cnt show ?thesis by blast
qed

text \<open>
  Claim C3. The deduction run is not idempotent. In the example state Alice is eligible
  for deduction on the Monday and has 45 days left; one run for that date takes her used
  days from 0 to 1, a second run for the same date takes them to 2, and the state after
  two runs differs from the state after one.
\<close>

theorem deduction_is_not_idempotent:
  "alice \<in> set (employees example_state)
   \<and> eligible_for_deduction example_state monday 2025 alice
   \<and> 2 \<le> sb_remaining_days (current_balance example_state (e_id alice) 2025)
   \<and> sb_used_days (current_balance example_state (e_id alice) 2025) = 0
   \<and> sb_used_days (current_balance
        (fst (process_deduction example_state monday None 2025)) (e_id alice) 2025) = 1
   \<and> sb_used_days (current_balance
        (fst (process_deduction
           (fst (process_deduction example_state monday None 2025)) monday None 2025))
        (e_id alice) 2025) = 2
   \<and> fst (process_deduction
           (fst (process_deduction example_state monday None 2025)) monday None 2025)
       \<noteq> fst (process_deduction example_state monday None 2025)"
proof -
  have a: "alice \<in> set (employees example_state)" by (simp add: example_state_def)
  have r: "2 \<le> sb_remaining_days (current_balance example_state (e_id alice) 2025)"
    "sb_used_days (current_balance example_state (e_id alice) 2025) = 0"
    by (simp_all add: current_balance_def example_state_def alice_def make_balance_def
        compute_remaining_def)
  have once: "sb_used_days (current_balance
        (fst (process_deduction example_state monday None 2025)) (e_id alice) 2025) = 1"
    unfolding example_run_once
    by (simp add: current_balance_def alice_def make_balance_def)
  have twice: "sb_used_days (current_balance
        (fst (process_deduction
           (fst (process_deduction example_state monday None 2025)) monday None 2025))
        (e_id alice) 2025) = 2"
    unfolding example_run_twice
    by (simp add: current_balance_def alice_def make_balance_def)
  have ne: "fst (process_deduction
           (fst (process_deduction example_state monday None 2025)) monday None 2025)
       \<noteq> fst (process_deduction example_state monday None 2025)"
    using once twice by auto
  from a example_alice r once twice ne show ?thesis by blast
qed

section \<open>The dashboard counts against the processor\<close>

lemma example_report:
  "leave_balance_report example_state 2025 =
     [report_row alice 2025 (make_balance 45 0), report_row carol 2025 (make_balance 45 10),
      report_row dave 2025 (make_balance 45 45)]"
  by (simp add: leave_balance_report_def List.map_filter_simps example_state_def
      alice_def carol_def dave_def)

text \<open>
  Claim C10. The "Eligible for Deduction" / "With Leave Balance" count is the number of
  balance rows with remaining days above 0, a function of the rows alone; the
  "Auto-Deducted" figure is the minimum of the absent count and that count. Neither is the
  processor's count: in the example state the screen shows 2 and 2 where a run deducts one
  day (none when it is filtered to Carol), and with the date declared a holiday the rows
  and the count stay the same while a run deducts nothing.
\<close>

theorem dashboard_counts_are_client_estimates:
  "eligibleForDeduction lbs = int (length (filter (\<lambda>b. remaining_days b > 0) lbs))
   \<and> autoDeducted es att lbs = min (absentEmployees es att) (eligibleForDeduction lbs)
   \<and> eligibleForDeduction (leave_balance_report example_state 2025) = 2
   \<and> autoDeducted (employees example_state) (attendance example_state)
        (leave_balance_report example_state 2025) = 2
   \<and> deductedCount (snd (process_deduction example_state monday None 2025)) = 1
   \<and> deductedCount (snd (process_deduction example_state monday (Some ''2'') 2025)) = 0
   \<and> leave_balance_report holiday_state 2025 = leave_balance_report example_state 2025
   \<and> deductedCount (snd (process_deduction holiday_state monday None 2025)) = 0"
proof -
  have e: "eligibleForDeduction lbs = int (length (filter (\<lambda>b. remaining_days b > 0) lbs))"
    by (simp add: eligibleForDeduction_def or_zero_def)
  have m: "autoDeducted es att lbs = min (absentEmployees es att) (eligibleForDeduction lbs)"
    by (simp add: autoDeducted_def)
  have n: "eligibleForDeduction (leave_balance_report example_state 2025) = 2"
    unfolding example_report
    by (simp add: eligibleForDeduction_def or_zero_def report_row_def make_balance_def
        compute_remaining_def)
  have ab: "absentEmployees (employees example_state) (attendance example_state) = 2"
    by (simp add: absentEmployees_def totalEmployees_def attendedEmployees_def
        activeEmployees_def or_zero_def example_state_def alice_def carol_def dave_def)
  have au: "autoDeducted (employees example_state) (attendance example_state)
        (leave_balance_report example_state 2025) = 2"
    by (simp add: autoDeducted_def n ab)
  have h: "leave_balance_report holiday_state 2025 = leave_balance_report example_state 2025"
    by (simp add: leave_balance_report_def holiday_state_def)
  have z: "deductedCount (snd (process_deduction holiday_state monday None 2025)) = 0"
    by (simp add: process_deduction_def selected_employees_def deduct_employee_def Let_def
        holiday_state_def example_state_def alice_def carol_def dave_def is_holiday_def)
  have c: "deductedCount (snd (process_deduction example_state monday (Some ''2'') 2025)) = 0"
    by (simp add: process_deduction_def selected_employees_def deduct_employee_def Let_def
        example_state_def alice_def carol_def dave_def monday_def has_attendance_def
        is_holiday_def is_weekend_def)
  from e m n au example_run_once(2) c h z show ?thesis by blast
qed

section \<open>The invariants of a stored balance\<close>

lemma make_balance_ok: "0 \<le> used \<Longrightarrow> balance_ok (make_balance entitlement used)"
  by (simp add: balance_ok_def make_balance_def compute_remaining_def compute_utilization_def)

lemma balances_ok_update:
  "balances_ok st \<Longrightarrow> balance_ok b \<Longrightarrow>
   balances_ok (st\<lparr>leave_balances := (leave_balances st)(k \<mapsto> b)\<rparr>)"
  by (simp add: balances_ok_def)

lemma handle_request_ok:
  "balances_ok st \<Longrightarrow> 0 \<le> submitted_usedDays r \<Longrightarrow> balances_ok (handle_request st r)"
proof (cases r)
  case (PostLeaveBalance i y entitlement used)
  assume "balances_ok st" "0 \<le> submitted_usedDays r"
  then show ?thesis using PostLeaveBalance
    by (simp add: create_balance_def balances_ok_update make_balance_ok)
next
  case (PutLeaveBalance i y used)
  assume "balances_ok st" "0 \<le> submitted_usedDays r"
  then show ?thesis using PutLeaveBalance
    by (simp add: update_balance_def balances_ok_update make_balance_ok split: option.split)
qed

lemma createBalanceMutation_nonneg:
  "createBalanceMutation f = Some r \<Longrightarrow> 0 \<le> submitted_usedDays r"
  by (auto simp: createBalanceMutation_def leaveBalanceSchema_def Let_def z_number_min_max_def
      split: sum.splits option.splits if_splits)

lemma handleQuickAction_nonneg: "0 \<le> submitted_usedDays (handleQuickAction lbs y i act n)"
  by (simp add: handleQuickAction_def updateBalanceMutation_def initializeBalanceMutation_def
      Let_def split: option.split)

lemma handleSubmit_nonneg: "0 \<le> submitted_usedDays (handleSubmit lbs y act f)"
  by (simp add: handleSubmit_def updateBalanceMutation_def initializeBalanceMutation_def
      Let_def split: option.split)

lemma editDialogOnChange_nonneg:
  "editDialogOnChange eb parsed = Some r \<Longrightarrow> 0 \<le> submitted_usedDays r"
  by (auto simp: editDialogOnChange_def handleUpdateUsedDays_def Let_def split: if_splits)

lemma current_balance_ok: "balances_ok st \<Longrightarrow> balance_ok (current_balance st i y)"
  by (auto simp: current_balance_def balances_ok_def make_balance_ok split: option.split)

lemma deduct_employee_ok:
  "balances_ok st \<Longrightarrow> balances_ok (fst (deduct_employee d y st e))"
proof -
  assume ok: "balances_ok st"
  have "0 \<le> sb_used_days (current_balance st (e_id e) y)"
    using current_balance_ok [OF ok, of "e_id e" y] by (simp add: balance_ok_def)
  then have "balance_ok (make_balance (sb_annual_entitlement (current_balance st (e_id e) y))
                (sb_used_days (current_balance st (e_id e) y) + 1))"
    by (intro make_balance_ok) simp
  then show ?thesis using ok
    by (simp add: deduct_employee_def Let_def balances_ok_update)
qed

lemma deduct_all_ok:
  "balances_ok st \<Longrightarrow> balances_ok (fst (deduct_all d y es st n))"
proof (induction es arbitrary: st n)
  case Nil
  then show ?case by simp
next
  case (Cons e es)
  have "balances_ok (fst (deduct_employee d y st e))"
    using Cons.prems by (rule deduct_employee_ok)
  then have "balances_ok (fst (deduct_all d y es (fst (deduct_employee d y st e)) m))" for m
    by (rule Cons.IH)
  then show ?case by (simp add: case_prod_beta)
qed

lemma perform_ok: "balances_ok st \<Longrightarrow> balances_ok (perform st a)"
proof (cases a)
  case (SubmitCreateForm f)
  assume "balances_ok st"
  then show ?thesis using SubmitCreateForm
    by (auto split: option.split intro: handle_request_ok createBalanceMutation_nonneg)
next
  case (SubmitLeaveAction lbs y act f)
  assume "balances_ok st"
  then show ?thesis using SubmitLeaveAction
    by (auto split: sum.split intro: handle_request_ok handleSubmit_nonneg)
next
  case (QuickAction lbs y i act n)
  assume "balances_ok st"
  then show ?thesis using QuickAction
    by (auto intro: handle_request_ok handleQuickAction_nonneg)
next
  case (EditUsedDays eb parsed)
  assume "balances_ok st"
  then show ?thesis using EditUsedDays
    by (auto split: option.split intro: handle_request_ok editDialogOnChange_nonneg)
next
  case (ProcessDeduction d f y)
  assume "balances_ok st"
  then show ?thesis using ProcessDeduction
    by (simp add: process_deduction_def Let_def case_prod_beta deduct_all_ok)
qed

lemma foldl_perform_ok: "balances_ok st \<Longrightarrow> balances_ok (foldl perform st acts)"
  by (induction acts arbitrary: st) (simp_all add: perform_ok)

text \<open>
  Claim C2. From a state whose balances satisfy the invariants (the empty store for one),
  after any sequence of operations the screens offer (creating a balance, the add and
  deduct actions, editing the used days, a deduction run), every stored balance has
  \<open>used_days \<ge> 0\<close>, \<open>remaining_days = max 0 (annual_entitlement - used_days)\<close> and
  \<open>utilization_percentage\<close> equal to \<open>used_days / annual_entitlement * 100\<close> rounded to one
  decimal when the entitlement is positive, and 0 otherwise.
\<close>

theorem balance_invariants_hold_after_every_operation:
  assumes "balances_ok st"
    and "leave_balances (foldl perform st acts) k = Some b"
  shows "sb_used_days b \<ge> 0
       \<and> sb_remaining_days b = max 0 (sb_annual_entitlement b - sb_used_days b)
       \<and> sb_utilization_percentage b =
           (if sb_annual_entitlement b > 0
            then round1 (of_int (sb_used_days b) / of_int (sb_annual_entitlement b) * 100)
            else 0)"
proof -
  have "balances_ok (foldl perform st acts)"
    using assms(1) by (rule foldl_perform_ok)
  then have "balance_ok b"
    using assms(2) unfolding balances_ok_def by blast
  then show ?thesis unfolding balance_ok_def .
qed

lemma example_ok: "balances_ok example_state"
  by (simp add: balances_ok_def example_state_def make_balance_ok)

theorem balance_invariants_hold_after_every_operation_witness:
  "balances_ok example_state
   \<and> leave_balances
       (foldl perform example_state
          [ProcessDeduction monday None 2025, QuickAction [] 2025 ''4'' add 1])
       (''1'', 2025) = Some (make_balance 45 1)
   \<and> leave_balances
       (foldl perform example_state
          [ProcessDeduction monday None 2025, QuickAction [] 2025 ''4'' add 1])
       (''4'', 2025) = Some (make_balance 45 0)
   \<and> sb_used_days (make_balance 45 1) = 1
   \<and> sb_remaining_days (make_balance 45 1) = 44
   \<and> sb_utilization_percentage (make_balance 45 1) = 22 / 10"
proof -
  let ?acts = "[ProcessDeduction monday None 2025, QuickAction [] 2025 ''4'' add 1]"
  have run: "leave_balances (foldl perform example_state ?acts) (''1'', 2025) =
      Some (make_balance 45 1)"
    "leave_balances (foldl perform example_state ?acts) (''4'', 2025) =
      Some (make_balance 45 0)"
    by (simp_all add: example_run_once handleQuickAction_def initializeBalanceMutation_def
        create_balance_def)
  have u: "sb_used_days (make_balance 45 1) = 1"
    by (simp add: make_balance_def)
  have "sb_remaining_days (make_balance 45 1) = max 0 (45 - 1)
      \<and> sb_utilization_percentage (make_balance 45 1) = round1 (of_int 1 / of_int 45 * 100)"
    using balance_invariants_hold_after_every_operation [OF example_ok run(1)]
    by (simp add: make_balance_def)
  moreover have "round1 (of_int 1 / of_int 45 * 100) = 22 / 10"
    by code_simp
  ultimately show ?thesis using example_ok run u by simp
qed

section \<open>The usage category\<close>

lemma utilization_examples:
  "compute_utilization 45 0 = 0" "compute_utilization 45 10 = 222 / 10"
  "compute_utilization 45 25 = 556 / 10" "compute_utilization 45 40 = 889 / 10"
  by code_simp+

text \<open>
  Claim C5. The usage category is a function of the utilization percentage \<open>u\<close> with four
  bands: "No Leave Taken" exactly at 0, "Low Usage" exactly for \<open>0 < u \<le> 25\<close>, "Moderate
  Usage" exactly for \<open>25 < u \<le> 75\<close> and "High Usage" exactly for \<open>u > 75\<close>; each is a label
  the screen's \<open>getUsageCategoryColor\<close> has a case for. With an entitlement of 45, 0 used
  days give "No Leave Taken", 10 give "Low Usage", 25 "Moderate Usage" and 40 "High Usage".
\<close>

theorem usage_category_bands:
  "(0 \<le> u \<longrightarrow>
      (usage_category u = ''No Leave Taken'') = (u = 0)
    \<and> (usage_category u = ''Low Usage'') = (0 < u \<and> u \<le> 25)
    \<and> (usage_category u = ''Moderate Usage'') = (25 < u \<and> u \<le> 75)
    \<and> (usage_category u = ''High Usage'') = (75 < u))
   \<and> usage_category u \<in> {''No Leave Taken'', ''Low Usage'', ''Moderate Usage'', ''High Usage''}
   \<and> getUsageCategoryColor (usage_category u) =
       (if u = 0 then ''bg-gray-100 text-gray-800''
        else if u \<le> 25 then ''bg-green-100 text-green-800''
        else if u \<le> 75 then ''bg-yellow-100 text-yellow-800''
        else ''bg-red-100 text-red-800'')
   \<and> balance_usage_category 45 0 = ''No Leave Taken''
   \<and> balance_usage_category 45 10 = ''Low Usage''
   \<and> balance_usage_category 45 25 = ''Moderate Usage''
   \<and> balance_usage_category 45 40 = ''High Usage''"
proof -
  have bands: "0 \<le> u \<longrightarrow>
      (usage_category u = ''No Leave Taken'') = (u = 0)
    \<and> (usage_category u = ''Low Usage'') = (0 < u \<and> u \<le> 25)
    \<and> (usage_category u = ''Moderate Usage'') = (25 < u \<and> u \<le> 75)
    \<and> (usage_category u = ''High Usage'') = (75 < u)"
    by (auto simp: usage_category_def)
  have four: "usage_category u \<in>
      {''No Leave Taken'', ''Low Usage'', ''Moderate Usage'', ''High Usage''}"
    by (simp add: usage_category_def)
  have colour: "getUsageCategoryColor (usage_category u) =
       (if u = 0 then ''bg-gray-100 text-gray-800''
        else if u \<le> 25 then ''bg-green-100 text-green-800''
        else if u \<le> 75 then ''bg-yellow-100 text-yellow-800''
        else ''bg-red-100 text-red-800'')"
    by (simp add: usage_category_def getUsageCategoryColor_def)
  have ex: "balance_usage_category 45 0 = ''No Leave Taken''"
    "balance_usage_category 45 10 = ''Low Usage''"
    "balance_usage_category 45 25 = ''Moderate Usage''"
    "balance_usage_category 45 40 = ''High Usage''"
    by (simp_all add: balance_usage_category_def utilization_examples usage_category_def)
  from bands four colour ex show ?thesis by blast
qed

theorem usage_category_bands_witness:
  "usage_category 0 = ''No Leave Taken'' \<and> usage_category 25 = ''Low Usage''
   \<and> usage_category (251 / 10) = ''Moderate Usage'' \<and> usage_category 75 = ''Moderate Usage''
   \<and> usage_category (751 / 10) = ''High Usage''"
  using usage_category_bands [of 0] usage_category_bands [of 25]
    usage_category_bands [of "251 / 10"] usage_category_bands [of 75]
    usage_category_bands [of "751 / 10"]
  by simp

end
